theory Spec2Isabelle
  imports Complex_Main "HOL-Library.Word"
begin

unbundle bit_operations_syntax

section \<open>Python values, text and exceptions\<close>

text \<open>
  A Python \<open>str\<close> is a sequence of code points; a code point is a natural number below
  \<open>0x110000\<close>.  ASCII literals of the source are written \<open>str ''...''\<close>.
  The values that flow through \<open>server.py\<close> are the ones \<open>json.load\<close> can
  return and \<open>json.dumps\<close> can print: \<open>None\<close>, booleans, strings, lists and
  dictionaries with string keys (insertion ordered, hence association lists).  Numbers
  are outside this development: where CPython would build an \<open>int\<close> or a
  \<open>float\<close> the decoder below answers \<open>Unmodelled\<close>, and no statement is
  made about such inputs.
\<close>

type_synonym pystr = "nat list"

definition str :: "string \<Rightarrow> pystr" where
  "str s = map of_char s"

datatype pyval =
    PNone
  | PBool bool
  | PStr pystr
  | PList "pyval list"
  | PDict "(pystr \<times> pyval) list"

datatype exn =
    ClientError pystr pystr   \<comment> \<open>botocore \<open>ClientError\<close>: \<open>e.response["Error"]["Code"]\<close> and \<open>str(e)\<close>\<close>
  | BotoCoreError pystr       \<comment> \<open>botocore failures that are not \<open>ClientError\<close> (no connection, time-out, no credentials, parameter validation)\<close>
  | HTTPException nat pystr   \<comment> \<open>\<open>status_code\<close> and \<open>detail\<close>\<close>
  | KeyError
  | IndexError
  | TypeError
  | AttributeError
  | JSONDecodeError
  | ValidationError           \<comment> \<open>pydantic\<close>
  | FileNotFoundError
  | PermissionError
  | PdfReadError              \<comment> \<open>pypdf\<close>
  | OtherException pystr      \<comment> \<open>any further subclass of \<open>Exception\<close>\<close>
  | KeyboardInterrupt         \<comment> \<open>a \<open>BaseException\<close> that is not an \<open>Exception\<close>\<close>
  | Unmodelled                \<comment> \<open>the input left the modelled fragment (numbers, decoder fuel)\<close>

definition is_Exception :: "exn \<Rightarrow> bool" where
  \<comment> \<open>\<open>isinstance(e, Exception)\<close>\<close>
  "is_Exception e = (e \<noteq> KeyboardInterrupt)"

definition then_do :: "exn + 'a \<Rightarrow> ('a \<Rightarrow> exn + 'b) \<Rightarrow> exn + 'b" where
  \<comment> \<open>sequencing: an exception raised by the first step skips the rest\<close>
  "then_do r f = (case r of Inl e \<Rightarrow> Inl e | Inr v \<Rightarrow> f v)"

fun getitem_key :: "pyval \<Rightarrow> pystr \<Rightarrow> exn + pyval" where
  \<comment> \<open>\<open>obj[key]\<close> for a string key\<close>
  "getitem_key (PDict d) k = (case map_of d k of None \<Rightarrow> Inl KeyError | Some v \<Rightarrow> Inr v)"
| "getitem_key _ k = Inl TypeError"

fun getitem_0 :: "pyval \<Rightarrow> exn + pyval" where
  \<comment> \<open>\<open>obj[0]\<close>\<close>
  "getitem_0 (PList []) = Inl IndexError"
| "getitem_0 (PList (x # xs)) = Inr x"
| "getitem_0 (PStr []) = Inl IndexError"
| "getitem_0 (PStr (c # cs)) = Inr (PStr [c])"
| "getitem_0 (PDict d) = Inl KeyError"
| "getitem_0 _ = Inl TypeError"

fun dict_setitem :: "(pystr \<times> pyval) list \<Rightarrow> pystr \<Rightarrow> pyval \<Rightarrow> (pystr \<times> pyval) list" where
  \<comment> \<open>\<open>d[k] = v\<close>: an existing key keeps its position\<close>
  "dict_setitem [] k v = [(k, v)]"
| "dict_setitem ((k', v') # d) k v =
     (if k' = k then (k, v) # d else (k', v') # dict_setitem d k v)"

fun dict_of_pairs :: "(pystr \<times> pyval) list \<Rightarrow> (pystr \<times> pyval) list \<Rightarrow> (pystr \<times> pyval) list" where
  \<comment> \<open>\<open>dict(pairs)\<close>, started from \<open>d\<close>\<close>
  "dict_of_pairs d [] = d"
| "dict_of_pairs d ((k, v) # ps) = dict_of_pairs (dict_setitem d k v) ps"

fun str_le :: "pystr \<Rightarrow> pystr \<Rightarrow> bool" where
  \<comment> \<open>\<open>a <= b\<close> on strings: lexicographic by code point\<close>
  "str_le [] b = True"
| "str_le (x # xs) [] = False"
| "str_le (x # xs) (y # ys) = (x < y \<or> (x = y \<and> str_le xs ys))"


section \<open>The \<open>json\<close> module: \<open>dumps(obj, indent=2)\<close> and \<open>load\<close>\<close>

text \<open>
  \<open>json.dumps\<close> with its defaults escapes everything outside printable ASCII
  (\<open>ensure_ascii\<close>); a code point beyond the basic plane is written as a surrogate
  pair.  The shifts and masks of the encoder are written with \<open>div\<close> and \<open>mod\<close>.
\<close>

definition hexdigit :: "nat \<Rightarrow> nat" where
  "hexdigit d = (if d < 10 then 48 + d else 87 + d)"

definition hex4 :: "nat \<Rightarrow> pystr" where
  \<comment> \<open>\<open>'%04x' % n\<close> for \<open>n < 0x10000\<close>\<close>
  "hex4 n = [hexdigit (n div 4096 mod 16), hexdigit (n div 256 mod 16),
             hexdigit (n div 16 mod 16), hexdigit (n mod 16)]"

definition replace_char :: "nat \<Rightarrow> pystr" where
  "replace_char c =
     (if c = 92 then [92, 92]
      else if c = 34 then [92, 34]
      else if c = 8 then [92, 98]
      else if c = 12 then [92, 102]
      else if c = 10 then [92, 110]
      else if c = 13 then [92, 114]
      else if c = 9 then [92, 116]
      else if 32 \<le> c \<and> c \<le> 126 then [c]
      else if c < 0x10000 then 92 # 117 # hex4 c
      else (let n = c - 0x10000;
                s1 = 0xd800 + (n div 1024) mod 1024;
                s2 = 0xdc00 + n mod 1024
            in 92 # 117 # hex4 s1 @ 92 # 117 # hex4 s2))"

definition encode_basestring_ascii :: "pystr \<Rightarrow> pystr" where
  "encode_basestring_ascii s = 34 # concat (map replace_char s) @ [34]"

fun join :: "'a list \<Rightarrow> 'a list list \<Rightarrow> 'a list" where
  "join sep [] = []"
| "join sep [x] = x"
| "join sep (x # y # ys) = x @ sep @ join sep (y # ys)"

definition newline_indent :: "nat \<Rightarrow> pystr" where
  \<comment> \<open>\<open>'\n' + indent * level\<close> with \<open>indent = 2\<close> spaces\<close>
  "newline_indent level = 10 # replicate (2 * level) 32"

fun iterencode :: "nat \<Rightarrow> pyval \<Rightarrow> pystr" where
  "iterencode level PNone = str ''null''"
| "iterencode level (PBool b) = (if b then str ''true'' else str ''false'')"
| "iterencode level (PStr s) = encode_basestring_ascii s"
| "iterencode level (PList xs) =
     (if xs = [] then str ''[]''
      else 91 # newline_indent (level + 1)
           @ join (44 # newline_indent (level + 1)) (map (iterencode (level + 1)) xs)
           @ newline_indent level @ [93])"
| "iterencode level (PDict kvs) =
     (if kvs = [] then str ''{}''
      else 123 # newline_indent (level + 1)
           @ join (44 # newline_indent (level + 1))
               (map (\<lambda>(k, v). encode_basestring_ascii k @ [58, 32] @ iterencode (level + 1) v) kvs)
           @ newline_indent level @ [125])"

definition dumps :: "pyval \<Rightarrow> pystr" where
  "dumps obj = iterencode 0 obj"

text \<open>
  The decoder follows \<open>json.decoder\<close> and \<open>json.scanner\<close>: \<open>scanstring\<close> in strict
  mode, \<open>JSONArray\<close>, \<open>JSONObject\<close> and \<open>scan_once\<close>.  Every failure of the
  decoder is the one exception \<open>JSONDecodeError\<close>.  The recursion of the scanner is
  bounded by a counter that \<open>loads\<close> starts above the length of the text; each call
  consumes a character.
\<close>

fun skip_ws :: "pystr \<Rightarrow> pystr" where
  "skip_ws [] = []"
| "skip_ws (c # cs) = (if c = 32 \<or> c = 9 \<or> c = 10 \<or> c = 13 then skip_ws cs else c # cs)"

definition hexval :: "nat \<Rightarrow> nat option" where
  "hexval c =
     (if 48 \<le> c \<and> c \<le> 57 then Some (c - 48)
      else if 97 \<le> c \<and> c \<le> 102 then Some (c - 87)
      else if 65 \<le> c \<and> c \<le> 70 then Some (c - 55)
      else None)"

fun decode_uXXXX :: "pystr \<Rightarrow> nat option" where
  "decode_uXXXX (a # b # c # d # rest) =
     (case (hexval a, hexval b, hexval c, hexval d) of
        (Some x3, Some x2, Some x1, Some x0) \<Rightarrow> Some (4096 * x3 + 256 * x2 + 16 * x1 + x0)
      | _ \<Rightarrow> None)"
| "decode_uXXXX _ = None"

definition BACKSLASH :: "nat \<Rightarrow> nat option" where
  "BACKSLASH esc =
     (if esc = 34 then Some 34
      else if esc = 92 then Some 92
      else if esc = 47 then Some 47
      else if esc = 98 then Some 8
      else if esc = 102 then Some 12
      else if esc = 110 then Some 10
      else if esc = 114 then Some 13
      else if esc = 116 then Some 9
      else None)"

function scanstring :: "pystr \<Rightarrow> pystr \<Rightarrow> exn + (pystr \<times> pystr)" where
  "scanstring acc [] = Inl JSONDecodeError"
| "scanstring acc (c # cs) =
     (if c = 34 then Inr (acc, cs)
      else if c = 92 then
        (case cs of
           [] \<Rightarrow> Inl JSONDecodeError
         | esc # es \<Rightarrow>
             if esc \<noteq> 117 then
               (case BACKSLASH esc of
                  None \<Rightarrow> Inl JSONDecodeError
                | Some ch \<Rightarrow> scanstring (acc @ [ch]) es)
             else
               (case decode_uXXXX es of
                  None \<Rightarrow> Inl JSONDecodeError
                | Some uni \<Rightarrow>
                    if 0xd800 \<le> uni \<and> uni \<le> 0xdbff \<and> take 2 (drop 4 es) = [92, 117] then
                      (case decode_uXXXX (drop 6 es) of
                         None \<Rightarrow> Inl JSONDecodeError
                       | Some uni2 \<Rightarrow>
                           if 0xdc00 \<le> uni2 \<and> uni2 \<le> 0xdfff then
                             scanstring
                               (acc @ [0x10000 + ((uni - 0xd800) * 1024 + (uni2 - 0xdc00))])
                               (drop 10 es)
                           else scanstring (acc @ [uni]) (drop 4 es))
                    else scanstring (acc @ [uni]) (drop 4 es)))
      else if c < 32 then Inl JSONDecodeError
      else scanstring (acc @ [c]) cs)"
  by pat_completeness auto
termination
  by (relation "measure (\<lambda>(acc, s). length s)") auto

fun scan_once :: "nat \<Rightarrow> pystr \<Rightarrow> exn + (pyval \<times> pystr)"
  and JSONArray_loop :: "nat \<Rightarrow> pyval list \<Rightarrow> pystr \<Rightarrow> exn + (pyval \<times> pystr)"
  and JSONObject_loop :: "nat \<Rightarrow> (pystr \<times> pyval) list \<Rightarrow> pystr \<Rightarrow> exn + (pyval \<times> pystr)"
where
  "scan_once 0 s = Inl Unmodelled"
| "scan_once (Suc n) [] = Inl JSONDecodeError"
| "scan_once (Suc n) (c # cs) =
     (if c = 34 then
        (case scanstring [] cs of Inl e \<Rightarrow> Inl e | Inr (s, rest) \<Rightarrow> Inr (PStr s, rest))
      else if c = 123 then
        (case skip_ws cs of
           [] \<Rightarrow> Inl JSONDecodeError
         | d # ds \<Rightarrow>
             if d = 125 then Inr (PDict [], ds)
             else if d = 34 then JSONObject_loop n [] ds
             else Inl JSONDecodeError)
      else if c = 91 then
        (case skip_ws cs of
           [] \<Rightarrow> Inl JSONDecodeError
         | d # ds \<Rightarrow> if d = 93 then Inr (PList [], ds) else JSONArray_loop n [] (d # ds))
      else if c = 110 \<and> take 3 cs = str ''ull'' then Inr (PNone, drop 3 cs)
      else if c = 116 \<and> take 3 cs = str ''rue'' then Inr (PBool True, drop 3 cs)
      else if c = 102 \<and> take 4 cs = str ''alse'' then Inr (PBool False, drop 4 cs)
      else if c = 45 \<or> (48 \<le> c \<and> c \<le> 57) \<or> c = 78 \<or> c = 73 then Inl Unmodelled
      else Inl JSONDecodeError)"
| "JSONArray_loop 0 vals s = Inl Unmodelled"
| "JSONArray_loop (Suc n) vals s =
     (case scan_once n s of
        Inl e \<Rightarrow> Inl e
      | Inr (v, rest) \<Rightarrow>
          (case skip_ws rest of
             [] \<Rightarrow> Inl JSONDecodeError
           | d # ds \<Rightarrow>
               if d = 93 then Inr (PList (vals @ [v]), ds)
               else if d = 44 then JSONArray_loop n (vals @ [v]) (skip_ws ds)
               else Inl JSONDecodeError))"
| "JSONObject_loop 0 pairs s = Inl Unmodelled"
| "JSONObject_loop (Suc n) pairs s =
     (case scanstring [] s of
        Inl e \<Rightarrow> Inl e
      | Inr (key, rest) \<Rightarrow>
          (case skip_ws rest of
             [] \<Rightarrow> Inl JSONDecodeError
           | d # ds \<Rightarrow>
               if d \<noteq> 58 then Inl JSONDecodeError
               else
                 (case scan_once n (skip_ws ds) of
                    Inl e \<Rightarrow> Inl e
                  | Inr (v, rest') \<Rightarrow>
                      (case skip_ws rest' of
                         [] \<Rightarrow> Inl JSONDecodeError
                       | d' # ds' \<Rightarrow>
                           if d' = 125 then Inr (PDict (dict_of_pairs [] (pairs @ [(key, v)])), ds')
                           else if d' \<noteq> 44 then Inl JSONDecodeError
                           else
                             (case skip_ws ds' of
                                [] \<Rightarrow> Inl JSONDecodeError
                              | q # qs \<Rightarrow>
                                  if q = 34 then JSONObject_loop n (pairs @ [(key, v)]) qs
                                  else Inl JSONDecodeError)))))"

definition loads :: "pystr \<Rightarrow> exn + pyval" where
  "loads s =
     (if take 1 s = [0xfeff] then Inl JSONDecodeError
      else
        (case scan_once (Suc (length s)) (skip_ws s) of
           Inl e \<Rightarrow> Inl e
         | Inr (obj, rest) \<Rightarrow> if skip_ws rest = [] then Inr obj else Inl JSONDecodeError))"


section \<open>\<open>resources.py\<close>\<close>

text \<open>
  \<open>load_linkedin_text\<close> reads \<open>./data/linkedin.pdf\<close> with pypdf.  Its input here is
  what the library does: \<open>PdfReader(...)\<close> either raises or gives the pages, and
  \<open>extract_text()\<close> of a page either raises or returns a string.  The warning that is
  printed for a skipped page is not kept.
\<close>

type_synonym page = "exn + pystr"

type_synonym pdf_reader = "exn + page list"

fun extract_pages :: "pystr \<Rightarrow> page list \<Rightarrow> exn + pystr" where
  \<comment> \<open>the loop \<open>for page in reader.pages\<close>\<close>
  "extract_pages linkedin_text [] = Inr linkedin_text"
| "extract_pages linkedin_text (page # pages) =
     (case page of
        Inr text \<Rightarrow>
          if text \<noteq> [] then extract_pages (linkedin_text @ text) pages
          else extract_pages linkedin_text pages
      | Inl e \<Rightarrow>
          if is_Exception e then extract_pages linkedin_text pages
          else Inl e)"

definition load_linkedin_text :: "pdf_reader \<Rightarrow> exn + pystr" where
  "load_linkedin_text reader =
     (case then_do reader (\<lambda>pages.
             then_do (extract_pages [] pages) (\<lambda>linkedin_text.
               Inr (if linkedin_text \<noteq> [] then linkedin_text
                    else str ''LinkedIn PDF contains unreadable text.''))) of
        Inl FileNotFoundError \<Rightarrow> Inr (str ''LinkedIn profile not available'')
      | r \<Rightarrow> r)"


section \<open>\<open>server.py\<close>: configuration, environment and storage\<close>

text \<open>
  The module-level settings are read once from the process environment.  \<open>prompt\<close> is
  the text that \<open>context.prompt()\<close> returns; the module \<open>context\<close> is not part of
  the sources at hand, so the text is a parameter.
\<close>

record config =
  USE_S3 :: bool
  S3_BUCKET :: pystr
  MEMORY_DIR :: pystr
  BEDROCK_MODEL_ID :: pystr
  prompt :: pystr

record ChatRequest =
  message :: pystr
  session_id :: "pystr option"

record ChatResponse =
  response :: pystr
  session_id :: pystr

record Message =
  role :: pystr
  content :: pystr
  timestamp :: pystr

definition Message_dict :: "Message \<Rightarrow> pyval" where
  \<comment> \<open>a turn as the dictionary that \<open>chat\<close> appends and the store keeps\<close>
  "Message_dict m =
     PDict [(str ''role'', PStr (role m)),
            (str ''content'', PStr (content m)),
            (str ''timestamp'', PStr (timestamp m))]"

record converse_kwargs =
  modelId :: pystr
  system :: "pyval list"
  messages :: "pyval list"
  maxTokens :: nat
  temperature :: real
  topP :: real

text \<open>
  What the outside world answers during one request: the Bedrock \<open>converse\<close> call,
  the sixteen random bytes behind \<open>uuid.uuid4()\<close>, the two readings of
  \<open>datetime.now().isoformat()\<close>, and the faults S3 may report for a bucket and key.
  The local file system is taken to be available: \<open>os.makedirs\<close> and \<open>open\<close>
  succeed.
\<close>

record env =
  converse :: "converse_kwargs \<Rightarrow> exn + pyval"
  urandom16 :: "128 word"
  now_first :: pystr
  now_second :: pystr
  s3_get_fault :: "pystr \<Rightarrow> pystr \<Rightarrow> exn option"
  s3_put_fault :: "pystr \<Rightarrow> pystr \<Rightarrow> exn option"

text \<open>
  The state: the text of each file, the directories made, the body of each S3 object,
  and the requests sent to Bedrock so far.  Files and objects hold the text written;
  \<open>json.dumps\<close> emits ASCII only, on which the encodings involved are the identity.
\<close>

record world =
  files :: "pystr \<rightharpoonup> pystr"
  dirs :: "pystr set"
  s3_objects :: "pystr \<times> pystr \<rightharpoonup> pystr"
  bedrock_calls :: "converse_kwargs list"

definition get_memory_path :: "pystr \<Rightarrow> pystr" where
  "get_memory_path sid = sid @ str ''.json''"

definition os_path_join :: "pystr \<Rightarrow> pystr \<Rightarrow> pystr" where
  \<comment> \<open>\<open>posixpath.join\<close> of two components\<close>
  "os_path_join a b =
     (if take 1 b = [47] then b
      else if a = [] \<or> last a = 47 then a @ b
      else a @ [47] @ b)"

definition os_makedirs :: "world \<Rightarrow> pystr \<Rightarrow> world" where
  \<comment> \<open>\<open>os.makedirs(path, exist_ok=True)\<close>\<close>
  "os_makedirs w path = w\<lparr>dirs := insert path (dirs w)\<rparr>"

definition s3_get_object :: "env \<Rightarrow> world \<Rightarrow> pystr \<Rightarrow> pystr \<Rightarrow> exn + pystr" where
  "s3_get_object e w bucket key =
     (case s3_get_fault e bucket key of
        Some err \<Rightarrow> Inl err
      | None \<Rightarrow>
          (case s3_objects w (bucket, key) of
             None \<Rightarrow> Inl (ClientError (str ''NoSuchKey'') (str ''The specified key does not exist.''))
           | Some body \<Rightarrow> Inr body))"

definition s3_put_object :: "env \<Rightarrow> world \<Rightarrow> pystr \<Rightarrow> pystr \<Rightarrow> pystr \<Rightarrow> (exn + unit) \<times> world" where
  "s3_put_object e w bucket key body =
     (case s3_put_fault e bucket key of
        Some err \<Rightarrow> (Inl err, w)
      | None \<Rightarrow> (Inr (), w\<lparr>s3_objects := (s3_objects w)((bucket, key) \<mapsto> body)\<rparr>))"

definition load_conversation :: "config \<Rightarrow> env \<Rightarrow> world \<Rightarrow> pystr \<Rightarrow> (exn + pyval) \<times> world" where
  "load_conversation cfg e w sid =
     (if USE_S3 cfg then
        (case s3_get_object e w (S3_BUCKET cfg) (get_memory_path sid) of
           Inr body \<Rightarrow> (loads body, w)
         | Inl (ClientError code text) \<Rightarrow>
             if code = str ''NoSuchKey'' then (Inr (PList []), w)
             else (Inl (ClientError code text), w)
         | Inl err \<Rightarrow> (Inl err, w))
      else
        (let w' = os_makedirs w (MEMORY_DIR cfg);
             file_path = os_path_join (MEMORY_DIR cfg) (get_memory_path sid)
         in case files w' file_path of
              Some text \<Rightarrow> (loads text, w')
            | None \<Rightarrow> (Inr (PList []), w')))"

definition save_conversation :: "config \<Rightarrow> env \<Rightarrow> world \<Rightarrow> pystr \<Rightarrow> pyval \<Rightarrow> (exn + unit) \<times> world" where
  "save_conversation cfg e w sid msgs =
     (if USE_S3 cfg then
        s3_put_object e w (S3_BUCKET cfg) (get_memory_path sid) (dumps msgs)
      else
        (let w' = os_makedirs w (MEMORY_DIR cfg);
             file_path = os_path_join (MEMORY_DIR cfg) (get_memory_path sid)
         in (Inr (), w'\<lparr>files := (files w')(file_path \<mapsto> dumps msgs)\<rparr>)))"


section \<open>\<open>server.py\<close>: the Bedrock wrapper\<close>

text \<open>
  \<open>call_bedrock\<close> in three parts: the message list (the loop over the last twenty
  items and the current user message), the keyword arguments of \<open>converse\<close>, and the
  call with its handler.  Every request handed to \<open>converse\<close> is appended to
  \<open>bedrock_calls\<close>, so that what was sent, and how often, can be read off the state.
\<close>

fun last20 :: "pyval \<Rightarrow> exn + pyval list" where
  \<comment> \<open>the items the loop sees in \<open>for msg in conversation[-20:]\<close>;
      slicing a dictionary raises (\<open>TypeError\<close> up to Python 3.11)\<close>
  "last20 (PList xs) = Inr (drop (length xs - 20) xs)"
| "last20 (PStr s) = Inr (map (\<lambda>c. PStr [c]) (drop (length s - 20) s))"
| "last20 _ = Inl TypeError"

definition nova_message :: "pyval \<Rightarrow> pyval \<Rightarrow> pyval" where
  "nova_message r c = PDict [(str ''role'', r), (str ''content'', PList [PDict [(str ''text'', c)]])]"

fun history_messages :: "pyval list \<Rightarrow> exn + pyval list" where
  "history_messages [] = Inr []"
| "history_messages (msg # rest) =
     then_do (getitem_key msg (str ''role'')) (\<lambda>r.
     then_do (getitem_key msg (str ''content'')) (\<lambda>c.
     then_do (history_messages rest) (\<lambda>ms.
       Inr (nova_message r c # ms))))"

definition build_messages :: "pyval \<Rightarrow> pystr \<Rightarrow> exn + pyval list" where
  \<comment> \<open>lines 122 to 135: the history window, then the current user message\<close>
  "build_messages conversation user_message =
     then_do (last20 conversation) (\<lambda>window.
     then_do (history_messages window) (\<lambda>ms.
       Inr (ms @ [nova_message (PStr (str ''user'')) (PStr user_message)])))"

definition converse_request :: "config \<Rightarrow> pyval list \<Rightarrow> converse_kwargs" where
  \<comment> \<open>the keyword arguments of \<open>bedrock_client.converse\<close>\<close>
  "converse_request cfg ms =
     \<lparr>modelId = BEDROCK_MODEL_ID cfg,
      system = [PDict [(str ''text'', PStr (prompt cfg))]],
      messages = ms,
      maxTokens = 2000,
      temperature = 0.7,
      topP = 0.9\<rparr>"

definition reply_text :: "pyval \<Rightarrow> exn + pyval" where
  \<comment> \<open>\<open>response["output"]["message"]["content"][0]["text"]\<close>\<close>
  "reply_text resp =
     then_do (getitem_key resp (str ''output'')) (\<lambda>out.
     then_do (getitem_key out (str ''message'')) (\<lambda>m.
     then_do (getitem_key m (str ''content'')) (\<lambda>c.
     then_do (getitem_0 c) (\<lambda>block.
       getitem_key block (str ''text'')))))"

definition call_bedrock :: "config \<Rightarrow> env \<Rightarrow> world \<Rightarrow> pyval \<Rightarrow> pystr \<Rightarrow> (exn + pyval) \<times> world" where
  "call_bedrock cfg e w conversation user_message =
     (case build_messages conversation user_message of
        Inl err \<Rightarrow> (Inl err, w)
      | Inr ms \<Rightarrow>
          (let kwargs = converse_request cfg ms;
               w' = w\<lparr>bedrock_calls := bedrock_calls w @ [kwargs]\<rparr>
           in case converse e kwargs of
                Inr resp \<Rightarrow> (reply_text resp, w')
              | Inl (ClientError code text) \<Rightarrow> (Inl (HTTPException 500 text), w')
              | Inl err \<Rightarrow> (Inl err, w')))"


section \<open>\<open>server.py\<close>: the routes\<close>

text \<open>
  \<open>ChatRequest\<close> and \<open>ChatResponse\<close> are the records above: \<open>message\<close> is any
  string, \<open>session_id\<close> is optional.  Building the response validates that the reply
  is a string (pydantic 2); this happens after the conversation has been saved.
\<close>

definition uuid4_int :: "128 word \<Rightarrow> 128 word" where
  \<comment> \<open>\<open>uuid.uuid4()\<close>: the variant and version bits are forced\<close>
  "uuid4_int r =
     (((r AND NOT (push_bit 48 0xc000)) OR push_bit 48 0x8000)
        AND NOT (push_bit 64 0xf000)) OR push_bit 76 4"

definition hex32 :: "128 word \<Rightarrow> pystr" where
  \<comment> \<open>\<open>'%032x' % n\<close>\<close>
  "hex32 n = map (\<lambda>i. hexdigit (unat (drop_bit (4 * (31 - i)) n AND 0xf))) [0..<32]"

definition str_uuid :: "128 word \<Rightarrow> pystr" where
  \<comment> \<open>\<open>str(UUID)\<close>: groups of 8, 4, 4, 4 and 12 hexadecimal digits\<close>
  "str_uuid n =
     (let h = hex32 n
      in take 8 h @ [45] @ take 4 (drop 8 h) @ [45] @ take 4 (drop 12 h) @ [45]
         @ take 4 (drop 16 h) @ [45] @ drop 20 h)"

definition resolve_session_id :: "env \<Rightarrow> ChatRequest \<Rightarrow> pystr" where
  \<comment> \<open>\<open>request.session_id or str(uuid.uuid4())\<close>\<close>
  "resolve_session_id e request =
     (case ChatRequest.session_id request of
        Some s \<Rightarrow> if s \<noteq> [] then s else str_uuid (uuid4_int (urandom16 e))
      | None \<Rightarrow> str_uuid (uuid4_int (urandom16 e)))"

definition user_turn :: "pystr \<Rightarrow> pystr \<Rightarrow> pyval" where
  "user_turn text now =
     PDict [(str ''role'', PStr (str ''user'')), (str ''content'', PStr text),
            (str ''timestamp'', PStr now)]"

definition assistant_turn :: "pyval \<Rightarrow> pystr \<Rightarrow> pyval" where
  "assistant_turn reply now =
     PDict [(str ''role'', PStr (str ''assistant'')), (str ''content'', reply),
            (str ''timestamp'', PStr now)]"

definition make_ChatResponse :: "pyval \<Rightarrow> pystr \<Rightarrow> exn + ChatResponse" where
  \<comment> \<open>\<open>ChatResponse(response=..., session_id=...)\<close>: the field \<open>response\<close> is a \<open>str\<close>\<close>
  "make_ChatResponse reply sid =
     (case reply of
        PStr r \<Rightarrow> Inr \<lparr>response = r, session_id = sid\<rparr>
      | _ \<Rightarrow> Inl ValidationError)"

definition chat :: "config \<Rightarrow> env \<Rightarrow> world \<Rightarrow> ChatRequest \<Rightarrow> (exn + ChatResponse) \<times> world" where
  "chat cfg e w request =
     (let sid = resolve_session_id e request
      in case load_conversation cfg e w sid of
           (Inl err, w1) \<Rightarrow> (Inl err, w1)
         | (Inr conversation, w1) \<Rightarrow>
             (case call_bedrock cfg e w1 conversation (message request) of
                (Inl err, w2) \<Rightarrow> (Inl err, w2)
              | (Inr assistant_reply, w2) \<Rightarrow>
                  (case conversation of
                     PList turns \<Rightarrow>
                       (let conversation' =
                              PList (turns @ [user_turn (message request) (now_first e),
                                              assistant_turn assistant_reply (now_second e)])
                        in case save_conversation cfg e w2 sid conversation' of
                             (Inl err, w3) \<Rightarrow> (Inl err, w3)
                           | (Inr u, w3) \<Rightarrow> (make_ChatResponse assistant_reply sid, w3))
                   | _ \<Rightarrow> (Inl AttributeError, w2))))"



section \<open>Notions of the specification\<close>

definition persisted :: "world \<Rightarrow> (pystr \<rightharpoonup> pystr) \<times> (pystr \<times> pystr \<rightharpoonup> pystr)" where
  \<comment> \<open>everything the two storage variants keep\<close>
  "persisted w = (files w, s3_objects w)"

definition unicode_text :: "pystr \<Rightarrow> bool" where
  \<comment> \<open>text made of Unicode scalar values: code points outside the surrogate range\<close>
  "unicode_text s = list_all (\<lambda>c. c < 0x110000 \<and> \<not> (0xd800 \<le> c \<and> c \<le> 0xdfff)) s"

definition unicode_message :: "Message \<Rightarrow> bool" where
  "unicode_message m = (unicode_text (role m) \<and> unicode_text (content m) \<and> unicode_text (timestamp m))"

definition request_entries :: "converse_kwargs \<Rightarrow> nat" where
  \<comment> \<open>the system instruction and the turns of a model request, counted together\<close>
  "request_entries k = length (system k) + length (messages k)"

definition nova_of :: "Message \<Rightarrow> pyval" where
  \<comment> \<open>a stored turn in the shape the model request carries\<close>
  "nova_of m = nova_message (PStr (role m)) (PStr (content m))"

definition turn_timestamp :: "pyval \<Rightarrow> pystr option" where
  "turn_timestamp t =
     (case getitem_key t (str ''timestamp'') of Inr (PStr s) \<Rightarrow> Some s | _ \<Rightarrow> None)"

fun nondecreasing :: "pystr list \<Rightarrow> bool" where
  "nondecreasing [] = True"
| "nondecreasing [a] = True"
| "nondecreasing (a # b # rest) = (str_le a b \<and> nondecreasing (b # rest))"

definition log_timestamps :: "pyval list \<Rightarrow> pystr list" where
  "log_timestamps turns = concat (map (\<lambda>t. case turn_timestamp t of Some s \<Rightarrow> [s] | None \<Rightarrow> []) turns)"

definition user_content_nonempty :: "pyval \<Rightarrow> bool" where
  \<comment> \<open>a turn whose role is \<open>user\<close> has content other than the empty string\<close>
  "user_content_nonempty t =
     (getitem_key t (str ''role'') = Inr (PStr (str ''user''))
        \<longrightarrow> getitem_key t (str ''content'') \<noteq> Inr (PStr []))"

definition stored_text :: "config \<Rightarrow> world \<Rightarrow> pystr \<Rightarrow> pystr option" where
  \<comment> \<open>the persisted log of a session: the file or the object that holds it\<close>
  "stored_text cfg w sid =
     (if USE_S3 cfg then s3_objects w (S3_BUCKET cfg, get_memory_path sid)
      else files w (os_path_join (MEMORY_DIR cfg) (get_memory_path sid)))"


section \<open>Concrete configurations and environments\<close>

definition local_config :: config where
  "local_config =
     \<lparr>USE_S3 = False, S3_BUCKET = [], MEMORY_DIR = str ''../memory'',
      BEDROCK_MODEL_ID = str ''amazon.nova-lite-v1:0'', prompt = str ''You are a digital twin.''\<rparr>"

definition s3_config :: config where
  "s3_config = local_config\<lparr>USE_S3 := True, S3_BUCKET := str ''twin-memory''\<rparr>"

definition empty_world :: world where
  "empty_world = \<lparr>files = Map.empty, dirs = {}, s3_objects = Map.empty, bedrock_calls = []\<rparr>"

definition nova_response :: "pystr \<Rightarrow> pyval" where
  \<comment> \<open>a well-formed answer of \<open>converse\<close> with one text block\<close>
  "nova_response text =
     PDict [(str ''output'',
       PDict [(str ''message'',
         PDict [(str ''role'', PStr (str ''assistant'')),
                (str ''content'', PList [PDict [(str ''text'', PStr text)]])])])]"

definition replying_env :: "pystr \<Rightarrow> pystr \<Rightarrow> pystr \<Rightarrow> env" where
  \<comment> \<open>the model answers \<open>text\<close>; the clock reads \<open>t1\<close>, then \<open>t2\<close>; S3 is available\<close>
  "replying_env text t1 t2 =
     \<lparr>converse = (\<lambda>k. Inr (nova_response text)),
      urandom16 = 0,
      now_first = t1,
      now_second = t2,
      s3_get_fault = (\<lambda>b k. None),
      s3_put_fault = (\<lambda>b k. None)\<rparr>"

definition failing_env :: "exn \<Rightarrow> env" where
  \<comment> \<open>\<open>converse\<close> raises \<open>err\<close>\<close>
  "failing_env err =
     (replying_env [] (str ''2024-11-03T01:00:00'') (str ''2024-11-03T01:00:01''))
       \<lparr>converse := (\<lambda>k. Inl err)\<rparr>"

definition no_block_env :: env where
  \<comment> \<open>\<open>converse\<close> answers a message whose content list is empty\<close>
  "no_block_env =
     (replying_env [] (str ''2024-11-03T01:00:00'') (str ''2024-11-03T01:00:01''))
       \<lparr>converse := (\<lambda>k. Inr (PDict [(str ''output'',
                        PDict [(str ''message'',
                          PDict [(str ''role'', PStr (str ''assistant'')),
                                 (str ''content'', PList [])])])]))\<rparr>"

definition throttled :: exn where
  "throttled = ClientError (str ''ThrottlingException'') (str ''Too many requests'')"

definition unreachable :: exn where
  \<comment> \<open>botocore's \<open>EndpointConnectionError\<close>\<close>
  "unreachable = BotoCoreError (str ''Could not connect to the endpoint URL'')"

definition hello :: ChatRequest where
  "hello = \<lparr>message = str ''Hi'', session_id = Some (str ''s1'')\<rparr>"

definition sample_log :: "Message list" where
  \<comment> \<open>two turns; the first content holds an accented letter, a code point beyond the
      basic plane, a quote, a backslash, a line feed and a control character\<close>
  "sample_log =
     [\<lparr>role = str ''user'', content = [104, 233, 0x1f600, 34, 92, 10, 127],
       timestamp = str ''2024-11-03T01:00:00''\<rparr>,
      \<lparr>role = str ''assistant'', content = [], timestamp = str ''2024-11-03T01:00:01.250000''\<rparr>]"

definition numbered_log :: "nat \<Rightarrow> Message list" where
  \<comment> \<open>\<open>n\<close> turns, the content of each being its position\<close>
  "numbered_log n =
     map (\<lambda>i. \<lparr>role = str ''user'', content = [48 + i], timestamp = str ''2024-11-03T01:00:00''\<rparr>) [0..<n]"

definition before_clock_change :: env where
  \<comment> \<open>a turn shortly before local time is set back from 02:00 to 01:00\<close>
  "before_clock_change =
     replying_env (str ''Hello'') (str ''2024-11-03T01:59:58.120000'') (str ''2024-11-03T01:59:58.120011'')"

definition after_clock_change :: env where
  \<comment> \<open>the next turn, seven seconds later\<close>
  "after_clock_change =
     replying_env (str ''Hello again'') (str ''2024-11-03T01:00:05.300000'') (str ''2024-11-03T01:00:05.300009'')"

definition a_second_later :: env where
  \<comment> \<open>the next turn of the session, one second after the first\<close>
  "a_second_later =
     replying_env (str ''Hello again'') (str ''2024-11-03T01:59:59.300000'') (str ''2024-11-03T01:59:59.300009'')"

definition blank_rejected :: exn where
  \<comment> \<open>the service refusing a blank text block\<close>
  "blank_rejected = ClientError (str ''ValidationException'') (str ''The text field is blank'')"


section \<open>The decoder reads back what the encoder writes\<close>

lemma str_simps: "str [] = []" "str (c # cs) = of_char c # str cs"
  by (simp_all add: str_def)

lemma hexval_hexdigit: "d < 16 \<Longrightarrow> hexval (hexdigit d) = Some d"
  by (simp add: hexval_def hexdigit_def)

lemma length_hex4: "length (hex4 n) = 4"
  by (simp add: hex4_def)

lemma digits_linear:
  "c = 16 * b + c0 \<Longrightarrow> b = 16 * a + b0 \<Longrightarrow> n = 16 * c + n0 \<Longrightarrow>
   4096 * a + 256 * b0 + 16 * c0 + n0 = (n::nat)"
  by simp

lemma hex4_value:
  assumes "n < 65536"
  shows "4096 * (n div 4096 mod 16) + 256 * (n div 256 mod 16) + 16 * (n div 16 mod 16) + n mod 16 = (n::nat)"
proof -
  have a: "n div 4096 mod 16 = n div 4096"
    using assms by (simp add: less_mult_imp_div_less)
  have c: "n div 16 = 16 * (n div 256) + n div 16 mod 16"
  proof -
    have "n div 16 div 16 = n div 256" by (simp add: div_mult2_eq[symmetric])
    then show ?thesis using div_mult_mod_eq[of "n div 16" 16] by simp
  qed
  have b: "n div 256 = 16 * (n div 4096) + n div 256 mod 16"
  proof -
    have "n div 256 div 16 = n div 4096" by (simp add: div_mult2_eq[symmetric])
    then show ?thesis using div_mult_mod_eq[of "n div 256" 16] by simp
  qed
  have n: "n = 16 * (n div 16) + n mod 16" by simp
  show ?thesis
    unfolding a by (rule digits_linear[OF c b n])
qed

lemma decode_hex4: "n < 65536 \<Longrightarrow> decode_uXXXX (hex4 n @ rest) = Some n"
  using hex4_value[of n] by (simp add: hex4_def hexval_hexdigit)


lemma scanstring_u_escape:
  assumes "n < 65536" and "\<not> (0xd800 \<le> n \<and> n \<le> 0xdbff)"
  shows "scanstring acc (92 # 117 # hex4 n @ t) = scanstring (acc @ [n]) t"
  using assms by (auto simp: decode_hex4 length_hex4)

lemma scanstring_pair:
  assumes "s1 < 65536" "s2 < 65536" "0xd800 \<le> s1" "s1 \<le> 0xdbff" "0xdc00 \<le> s2" "s2 \<le> 0xdfff"
  shows "scanstring acc (92 # 117 # hex4 s1 @ 92 # 117 # hex4 s2 @ t)
         = scanstring (acc @ [0x10000 + ((s1 - 0xd800) * 1024 + (s2 - 0xdc00))]) t"
proof -
  have d: "decode_uXXXX (hex4 s1 @ 92 # 117 # hex4 s2 @ t) = Some s1"
    by (rule decode_hex4[OF assms(1)])
  have d2: "decode_uXXXX (hex4 s2 @ t) = Some s2"
    by (rule decode_hex4[OF assms(2)])
  show ?thesis
    using assms d d2 by (simp add: length_hex4)
qed

lemma scanstring_replace_char:
  assumes valid: "c < 0x110000" and scalar: "\<not> (0xd800 \<le> c \<and> c \<le> 0xdfff)"
  shows "scanstring acc (replace_char c @ t) = scanstring (acc @ [c]) t"
proof -
  consider (short) "c = 92 \<or> c = 34 \<or> c = 8 \<or> c = 12 \<or> c = 10 \<or> c = 13 \<or> c = 9"
    | (plain) "32 \<le> c" "c \<le> 126" "c \<noteq> 92" "c \<noteq> 34"
    | (bmp) "c < 32 \<or> 126 < c" "c < 0x10000" "c \<noteq> 8" "c \<noteq> 12" "c \<noteq> 10" "c \<noteq> 13" "c \<noteq> 9"
    | (astral) "0x10000 \<le> c"
    by linarith
  then show ?thesis
  proof cases
    case short
    then show ?thesis
      by (elim disjE) (simp_all add: replace_char_def BACKSLASH_def)
  next
    case plain
    then show ?thesis by (simp add: replace_char_def)
  next
    case bmp
    have rc: "replace_char c = 92 # 117 # hex4 c"
      using bmp by (auto simp: replace_char_def)
    have nh: "\<not> (0xd800 \<le> c \<and> c \<le> 0xdbff)"
      using scalar by linarith
    show ?thesis
      unfolding rc using scanstring_u_escape[OF bmp(2) nh, of acc t] by simp
  next
    case astral
    define n where "n = c - 0x10000"
    define s1 where "s1 = 0xd800 + n div 1024 mod 1024"
    define s2 where "s2 = 0xdc00 + n mod 1024"
    have n_less: "n < 1048576" using valid astral by (simp add: n_def)
    have hi: "n div 1024 mod 1024 = n div 1024"
      using n_less by (simp add: less_mult_imp_div_less)
    have hi_less: "n div 1024 < 1024"
      using n_less by (simp add: less_mult_imp_div_less)
    have lo_less: "n mod 1024 < 1024" by simp
    have rc: "replace_char c = 92 # 117 # hex4 s1 @ 92 # 117 # hex4 s2"
      using astral by (simp add: replace_char_def Let_def s1_def s2_def n_def)
    have bounds: "s1 < 65536" "s2 < 65536" "0xd800 \<le> s1" "s1 \<le> 0xdbff" "0xdc00 \<le> s2" "s2 \<le> 0xdfff"
      using hi_less lo_less by (simp_all add: s1_def s2_def hi)
    have "(s1 - 0xd800) * 1024 + (s2 - 0xdc00) = n"
      by (simp add: s1_def s2_def hi)
    moreover have "0x10000 + n = c" using astral by (simp add: n_def)
    ultimately have rejoin: "0x10000 + ((s1 - 0xd800) * 1024 + (s2 - 0xdc00)) = c" by simp
    show ?thesis
      unfolding rc using scanstring_pair[OF bounds, of acc t] rejoin by simp
  qed
qed

lemma scanstring_body:
  "unicode_text s \<Longrightarrow> scanstring acc (concat (map replace_char s) @ 34 # rest) = Inr (acc @ s, rest)"
proof (induction s arbitrary: acc)
  case Nil
  then show ?case by simp
next
  case (Cons c s)
  then have c: "c < 0x110000" "\<not> (0xd800 \<le> c \<and> c \<le> 0xdfff)" and s: "unicode_text s"
    by (simp_all add: unicode_text_def)
  have "scanstring acc (concat (map replace_char (c # s)) @ 34 # rest)
        = scanstring acc (replace_char c @ (concat (map replace_char s) @ 34 # rest))"
    by simp
  also have "\<dots> = scanstring (acc @ [c]) (concat (map replace_char s) @ 34 # rest)"
    by (rule scanstring_replace_char[OF c])
  also have "\<dots> = Inr ((acc @ [c]) @ s, rest)"
    by (rule Cons.IH[OF s])
  finally show ?case by simp
qed

lemma skip_ws_spaces: "skip_ws (replicate k 32 @ t) = skip_ws t"
  by (induction k) simp_all

lemma skip_ws_newline_indent: "skip_ws (newline_indent l @ t) = skip_ws t"
  by (simp add: newline_indent_def skip_ws_spaces)

lemma unicode_keys:
  "unicode_text (str ''role'')" "unicode_text (str ''content'')" "unicode_text (str ''timestamp'')"
  by (simp_all add: unicode_text_def str_simps)

lemma keys_distinct:
  "str ''role'' \<noteq> str ''content''" "str ''role'' \<noteq> str ''timestamp''"
  "str ''content'' \<noteq> str ''timestamp''" "str ''content'' \<noteq> str ''role''"
  "str ''timestamp'' \<noteq> str ''role''" "str ''timestamp'' \<noteq> str ''content''"
  by (simp_all add: str_simps)

lemma iterencode_Message:
  "iterencode l (Message_dict m) =
     123 # newline_indent (Suc l) @ 34 # concat (map replace_char (str ''role'')) @ 34 # 58 # 32 #
       34 # concat (map replace_char (role m)) @ 34 # 44 # newline_indent (Suc l) @
       34 # concat (map replace_char (str ''content'')) @ 34 # 58 # 32 #
       34 # concat (map replace_char (content m)) @ 34 # 44 # newline_indent (Suc l) @
       34 # concat (map replace_char (str ''timestamp'')) @ 34 # 58 # 32 #
       34 # concat (map replace_char (timestamp m)) @ 34 # newline_indent l @ [125]"
  by (simp add: Message_dict_def encode_basestring_ascii_def)

lemma scan_once_Message:
  assumes "unicode_message m"
  shows "scan_once (Suc (Suc (Suc (Suc (Suc n))))) (iterencode l (Message_dict m) @ rest)
         = Inr (Message_dict m, rest)"
  unfolding iterencode_Message
  using assms unicode_keys
  by (simp add: unicode_message_def scanstring_body skip_ws_newline_indent
      keys_distinct Message_dict_def)


lemma iterencode_Message_head:
  "\<exists>t. iterencode l (Message_dict m) = 123 # t"
  by (simp add: iterencode_Message)

lemma skip_ws_Message: "skip_ws (iterencode l (Message_dict m) @ t) = iterencode l (Message_dict m) @ t"
  by (simp add: iterencode_Message)

lemma JSONArray_loop_step_last:
  assumes "scan_once n s = Inr (v, newline_indent l @ 93 # rest)"
  shows "JSONArray_loop (Suc n) vals s = Inr (PList (vals @ [v]), rest)"
  using assms by (simp add: skip_ws_newline_indent)

lemma JSONArray_loop_step_more:
  assumes "scan_once n s = Inr (v, 44 # newline_indent l @ t)" and "skip_ws t = t"
  shows "JSONArray_loop (Suc n) vals s = JSONArray_loop n (vals @ [v]) t"
  using assms by (simp add: skip_ws_newline_indent)

lemma JSONArray_loop_Messages:
  assumes "ms \<noteq> []" and "list_all unicode_message ms" and "length ms + 5 \<le> n"
  shows "JSONArray_loop n vals
           (join (44 # newline_indent (Suc l)) (map (iterencode (Suc l)) (map Message_dict ms))
              @ newline_indent l @ 93 # rest)
         = Inr (PList (vals @ map Message_dict ms), rest)"
  using assms
proof (induction ms arbitrary: n vals)
  case Nil
  then show ?case by simp
next
  case (Cons m ms)
  have "6 \<le> n" using Cons.prems(3) by simp
  then obtain k where "n = 6 + k" using le_Suc_ex by blast
  then have n: "n = Suc (Suc (Suc (Suc (Suc (Suc k)))))" by simp
  have k: "length ms \<le> k" using Cons.prems(3) n by simp
  have um: "unicode_message m" and ums: "list_all unicode_message ms"
    using Cons.prems(2) by simp_all
  note IH = Cons.IH
  show ?case
  proof (cases ms)
    case Nil
    have "scan_once (Suc (Suc (Suc (Suc (Suc k))))) (iterencode (Suc l) (Message_dict m) @ newline_indent l @ 93 # rest)
          = Inr (Message_dict m, newline_indent l @ 93 # rest)"
      by (rule scan_once_Message[OF um])
    from JSONArray_loop_step_last[OF this, of vals]
    show ?thesis
      unfolding n Nil by simp
  next
    case (Cons m' ms')
    have ne: "ms \<noteq> []" using Cons by simp
    have fuel: "length ms + 5 \<le> Suc (Suc (Suc (Suc (Suc k))))"
      using k by simp
    define t where "t = join (44 # newline_indent (Suc l)) (map (iterencode (Suc l)) (map Message_dict ms))
              @ newline_indent l @ 93 # rest"
    have t_ws: "skip_ws t = t"
      unfolding t_def Cons by (cases ms') (simp_all add: skip_ws_Message)
    have whole: "join (44 # newline_indent (Suc l)) (map (iterencode (Suc l)) (map Message_dict (m # ms)))
              @ newline_indent l @ 93 # rest
          = iterencode (Suc l) (Message_dict m) @ 44 # newline_indent (Suc l) @ t"
      unfolding t_def Cons by simp
    have "scan_once (Suc (Suc (Suc (Suc (Suc k))))) (iterencode (Suc l) (Message_dict m) @ 44 # newline_indent (Suc l) @ t)
          = Inr (Message_dict m, 44 # newline_indent (Suc l) @ t)"
      by (rule scan_once_Message[OF um])
    from JSONArray_loop_step_more[OF this t_ws, of vals]
    have step: "JSONArray_loop n vals (iterencode (Suc l) (Message_dict m) @ 44 # newline_indent (Suc l) @ t)
        = JSONArray_loop (Suc (Suc (Suc (Suc (Suc k))))) (vals @ [Message_dict m]) t"
      unfolding n .
    have "JSONArray_loop n vals
           (join (44 # newline_indent (Suc l)) (map (iterencode (Suc l)) (map Message_dict (m # ms)))
              @ newline_indent l @ 93 # rest)
          = JSONArray_loop n vals (iterencode (Suc l) (Message_dict m) @ 44 # newline_indent (Suc l) @ t)"
      by (simp only: whole)
    also have "\<dots> = JSONArray_loop (Suc (Suc (Suc (Suc (Suc k))))) (vals @ [Message_dict m]) t"
      by (rule step)
    also have "\<dots> = Inr (PList ((vals @ [Message_dict m]) @ map Message_dict ms), rest)"
      unfolding t_def by (rule IH[OF ne ums fuel])
    finally show ?thesis by simp
  qed
qed


lemma length_join_ge:
  "list_all (\<lambda>x. k \<le> length x) xs \<Longrightarrow> k * length xs \<le> length (join sep xs)"
  by (induction sep xs rule: join.induct) simp_all

lemma length_iterencode_Message: "6 \<le> length (iterencode l (Message_dict m))"
  by (simp add: iterencode_Message)

lemma loads_dumps_Messages:
  assumes "list_all unicode_message ms"
  shows "loads (dumps (PList (map Message_dict ms))) = Inr (PList (map Message_dict ms))"
proof (cases ms)
  case Nil
  then show ?thesis by (simp add: loads_def dumps_def str_simps)
next
  case (Cons m ms')
  define body where "body = join (44 # newline_indent (Suc 0)) (map (iterencode (Suc 0)) (map Message_dict ms))"
  define doc where "doc = dumps (PList (map Message_dict ms))"
  have doc: "doc = 91 # newline_indent (Suc 0) @ body @ newline_indent 0 @ [93]"
    unfolding doc_def body_def dumps_def using Cons by simp
  obtain b where b: "body = 123 # b"
    unfolding body_def Cons using iterencode_Message_head[of "Suc 0" m] by (cases ms') auto
  have "list_all (\<lambda>x. 6 \<le> length x) (map (iterencode (Suc 0)) (map Message_dict ms))"
    by (simp add: list_all_iff length_iterencode_Message)
  from length_join_ge[OF this, of "44 # newline_indent (Suc 0)"]
  have "6 * length ms \<le> length body" by (simp add: body_def)
  then have fuel: "length ms + 5 \<le> length doc"
    using Cons by (simp add: doc)
  have ne: "ms \<noteq> []" using Cons by simp
  have loop: "JSONArray_loop (length doc) [] (body @ newline_indent 0 @ 93 # [])
              = Inr (PList ([] @ map Message_dict ms), [])"
    unfolding body_def by (rule JSONArray_loop_Messages[OF ne assms fuel])
  have "scan_once (Suc (length doc)) (skip_ws doc) = Inr (PList (map Message_dict ms), [])"
    using loop by (simp add: doc skip_ws_newline_indent b)
  then show ?thesis
    unfolding doc_def[symmetric] by (simp add: loads_def doc)
qed

section \<open>Facts about the storage helpers and the chat route\<close>

lemma chat_success:
  assumes "chat cfg e w request = (Inr resp, w')"
  obtains turns w1 w2 reply where
    "load_conversation cfg e w (resolve_session_id e request) = (Inr (PList turns), w1)"
    "call_bedrock cfg e w1 (PList turns) (message request) = (Inr (PStr reply), w2)"
    "save_conversation cfg e w2 (resolve_session_id e request)
       (PList (turns @ [user_turn (message request) (now_first e),
                        assistant_turn (PStr reply) (now_second e)])) = (Inr (), w')"
    "resp = \<lparr>response = reply, session_id = resolve_session_id e request\<rparr>"
  using assms
  by (auto simp: chat_def Let_def make_ChatResponse_def split: prod.splits sum.splits pyval.splits)

lemma save_stored:
  "save_conversation cfg e w sid msgs = (Inr u, w') \<Longrightarrow> stored_text cfg w' sid = Some (dumps msgs)"
  by (auto simp: save_conversation_def stored_text_def s3_put_object_def os_makedirs_def Let_def
      split: option.splits if_splits)

lemma load_stored:
  assumes "stored_text cfg w sid = Some text"
    and "USE_S3 cfg \<longrightarrow> s3_get_fault e (S3_BUCKET cfg) (get_memory_path sid) = None"
  shows "fst (load_conversation cfg e w sid) = loads text"
  using assms
  by (cases "USE_S3 cfg")
     (simp_all add: load_conversation_def stored_text_def s3_get_object_def os_makedirs_def Let_def)


lemma load_persisted: "persisted (snd (load_conversation cfg e w sid)) = persisted w"
  by (auto simp: load_conversation_def persisted_def os_makedirs_def Let_def split: sum.splits exn.splits option.splits)

lemma call_persisted: "persisted (snd (call_bedrock cfg e w conv msg)) = persisted w"
  by (auto simp: call_bedrock_def persisted_def Let_def split: sum.splits exn.splits option.splits)

lemma load_depends_on_persisted:
  "persisted w = persisted w' \<Longrightarrow> fst (load_conversation cfg e w sid) = fst (load_conversation cfg e w' sid)"
  by (auto simp: load_conversation_def persisted_def s3_get_object_def os_makedirs_def Let_def
      split: sum.splits exn.splits option.splits)

lemma length_str_uuid: "length (str_uuid n) = 36"
  by (simp add: str_uuid_def hex32_def Let_def)

lemma history_messages_Messages:
  "history_messages (map Message_dict ms) = Inr (map nova_of ms)"
  by (induction ms) (simp_all add: Message_dict_def nova_of_def then_do_def keys_distinct)

lemma build_messages_Messages:
  "build_messages (PList (map Message_dict ms)) text
   = Inr (map nova_of (drop (length ms - 20) ms) @ [nova_message (PStr (str ''user'')) (PStr text)])"
  by (simp add: build_messages_def then_do_def drop_map history_messages_Messages)

lemma nondecreasing_snoc:
  "nondecreasing (xs @ [a]) \<Longrightarrow> str_le a b \<Longrightarrow> nondecreasing (xs @ [a, b])"
  by (induction xs rule: nondecreasing.induct) simp_all

lemma chat_effect:
  assumes "fst (chat cfg e w request) = Inr resp"
  shows "\<exists>turns.
       fst (load_conversation cfg e w (resolve_session_id e request)) = Inr (PList turns)
     \<and> stored_text cfg (snd (chat cfg e w request)) (resolve_session_id e request)
         = Some (dumps (PList (turns @ [user_turn (message request) (now_first e),
                                        assistant_turn (PStr (response resp)) (now_second e)])))
     \<and> ChatResponse.session_id resp = resolve_session_id e request"
proof -
  obtain w' where ch: "chat cfg e w request = (Inr resp, w')"
    using assms by (cases "chat cfg e w request") simp
  show ?thesis
  proof (rule chat_success[OF ch])
    fix turns w1 w2 reply
    assume l: "load_conversation cfg e w (resolve_session_id e request) = (Inr (PList turns), w1)"
      and s: "save_conversation cfg e w2 (resolve_session_id e request)
         (PList (turns @ [user_turn (message request) (now_first e),
                          assistant_turn (PStr reply) (now_second e)])) = (Inr (), w')"
      and r: "resp = \<lparr>response = reply, session_id = resolve_session_id e request\<rparr>"
    have "stored_text cfg w' (resolve_session_id e request)
          = Some (dumps (PList (turns @ [user_turn (message request) (now_first e),
                          assistant_turn (PStr reply) (now_second e)])))"
      by (rule save_stored[OF s])
    then show ?thesis
      using l r ch by simp
  qed
qed

lemma turns_as_Messages:
  "user_turn text now = Message_dict \<lparr>role = str ''user'', content = text, timestamp = now\<rparr>"
  "assistant_turn (PStr reply) now = Message_dict \<lparr>role = str ''assistant'', content = reply, timestamp = now\<rparr>"
  by (simp_all add: user_turn_def assistant_turn_def Message_dict_def)

lemma unicode_roles: "unicode_text (str ''user'')" "unicode_text (str ''assistant'')"
  by (simp_all add: unicode_text_def str_simps)

lemma chat_then_load:
  assumes ok: "fst (chat cfg e w request) = Inr resp"
    and before: "fst (load_conversation cfg e w (resolve_session_id e request)) = Inr (PList (map Message_dict ms))"
    and uni: "list_all unicode_message ms" "unicode_text (message request)" "unicode_text (response resp)"
      "unicode_text (now_first e)" "unicode_text (now_second e)"
    and avail: "USE_S3 cfg \<longrightarrow> s3_get_fault e (S3_BUCKET cfg) (get_memory_path (resolve_session_id e request)) = None"
  shows "fst (load_conversation cfg e (snd (chat cfg e w request)) (resolve_session_id e request))
         = Inr (PList (map Message_dict ms
                @ [user_turn (message request) (now_first e),
                   assistant_turn (PStr (response resp)) (now_second e)]))"
proof -
  define new where "new = [\<lparr>role = str ''user'', content = message request, timestamp = now_first e\<rparr>,
     \<lparr>role = str ''assistant'', content = response resp, timestamp = now_second e\<rparr>]"
  have new: "map Message_dict ms @ [user_turn (message request) (now_first e),
                   assistant_turn (PStr (response resp)) (now_second e)] = map Message_dict (ms @ new)"
    by (simp add: new_def turns_as_Messages)
  have un: "list_all unicode_message (ms @ new)"
    using uni unicode_roles by (simp add: new_def unicode_message_def)
  from chat_effect[OF ok] before
  have "stored_text cfg (snd (chat cfg e w request)) (resolve_session_id e request)
         = Some (dumps (PList (map Message_dict (ms @ new))))"
    unfolding new[symmetric] by auto
  from load_stored[OF this avail]
  show ?thesis
    unfolding new by (simp only: loads_dumps_Messages[OF un])
qed

lemma log_timestamps_append: "log_timestamps (xs @ ys) = log_timestamps xs @ log_timestamps ys"
  by (simp add: log_timestamps_def)

lemma log_timestamps_new:
  "log_timestamps [user_turn text t1, assistant_turn reply t2] = [t1, t2]"
  by (simp add: log_timestamps_def turn_timestamp_def user_turn_def assistant_turn_def keys_distinct)

lemma reply_text_nova_response: "reply_text (nova_response text) = Inr (PStr text)"
  by (simp add: reply_text_def nova_response_def then_do_def str_simps)

lemma call_bedrock_replying:
  assumes "build_messages conversation msg = Inr ms"
  shows "fst (call_bedrock cfg (replying_env text t1 t2) w conversation msg) = Inr (PStr text)"
  using assms by (simp add: call_bedrock_def Let_def replying_env_def reply_text_nova_response)

lemma save_replying:
  "fst (save_conversation cfg (replying_env text t1 t2) w sid msgs) = Inr ()"
  by (simp add: save_conversation_def s3_put_object_def replying_env_def Let_def)

lemma chat_run:
  assumes "fst (load_conversation cfg e w (resolve_session_id e request)) = Inr (PList turns)"
    and "\<And>w1. fst (call_bedrock cfg e w1 (PList turns) (message request)) = Inr (PStr reply)"
    and "\<And>w2 msgs. fst (save_conversation cfg e w2 (resolve_session_id e request) msgs) = Inr ()"
  shows "fst (chat cfg e w request) = Inr \<lparr>response = reply, session_id = resolve_session_id e request\<rparr>"
proof -
  define sid where "sid = resolve_session_id e request"
  obtain w1 where l: "load_conversation cfg e w sid = (Inr (PList turns), w1)"
    using assms(1) unfolding sid_def by (cases "load_conversation cfg e w (resolve_session_id e request)") simp
  obtain w2 where c: "call_bedrock cfg e w1 (PList turns) (message request) = (Inr (PStr reply), w2)"
    using assms(2)[of w1] by (cases "call_bedrock cfg e w1 (PList turns) (message request)") simp
  obtain w3 where s: "save_conversation cfg e w2 sid (PList (turns @ [user_turn (message request) (now_first e),
                                              assistant_turn (PStr reply) (now_second e)])) = (Inr (), w3)"
    using assms(3)[of w2 "PList (turns @ [user_turn (message request) (now_first e),
                                              assistant_turn (PStr reply) (now_second e)])"] unfolding sid_def
    by (cases "save_conversation cfg e w2 (resolve_session_id e request) (PList (turns @ [user_turn (message request) (now_first e),
                                              assistant_turn (PStr reply) (now_second e)]))") simp
  show ?thesis
    unfolding chat_def Let_def sid_def[symmetric] using l c s
    by (simp add: make_ChatResponse_def)
qed

lemma chat_replying:
  assumes "fst (load_conversation cfg (replying_env text t1 t2) w (resolve_session_id (replying_env text t1 t2) request)) = Inr (PList turns)"
    and "build_messages (PList turns) (message request) = Inr ms"
  shows "fst (chat cfg (replying_env text t1 t2) w request)
         = Inr \<lparr>response = text, session_id = resolve_session_id (replying_env text t1 t2) request\<rparr>"
  by (rule chat_run[OF assms(1) call_bedrock_replying[OF assms(2)] save_replying])

lemma load_empty_world:
  "fst (load_conversation local_config (replying_env text t1 t2) empty_world sid) = Inr (PList [])"
  by (simp add: load_conversation_def local_config_def empty_world_def os_makedirs_def Let_def)

lemma build_messages_empty:
  "build_messages (PList []) msg = Inr [nova_message (PStr (str ''user'')) (PStr msg)]"
  by (simp add: build_messages_def then_do_def)

lemma resolve_nonempty: "resolve_session_id e request \<noteq> []"
proof -
  have "str_uuid (uuid4_int (urandom16 e)) \<noteq> []"
    using length_str_uuid[of "uuid4_int (urandom16 e)"] by auto
  then show ?thesis
    by (simp add: resolve_session_id_def split: option.splits)
qed

lemma replying_env_sel:
  "urandom16 (replying_env reply t1 t2) = 0" "now_first (replying_env reply t1 t2) = t1"
  "now_second (replying_env reply t1 t2) = t2"
  "s3_get_fault (replying_env reply t1 t2) b k = None"
  by (simp_all add: replying_env_def)

lemma chat_local_first_turn_any:
  "fst (chat local_config (replying_env reply t1 t2) empty_world \<lparr>message = msg, session_id = sid\<rparr>)
   = Inr \<lparr>response = reply, session_id = resolve_session_id (replying_env reply t1 t2) \<lparr>message = msg, session_id = sid\<rparr>\<rparr>"
  using chat_replying[OF load_empty_world build_messages_empty,
      of reply t1 t2 "\<lparr>message = msg, session_id = sid\<rparr>"]
  by simp

lemma save_then_load:
  assumes uni: "list_all unicode_message ms"
    and ok: "fst (save_conversation cfg e w sid (PList (map Message_dict ms))) = Inr ()"
    and avail: "USE_S3 cfg \<longrightarrow> s3_get_fault e (S3_BUCKET cfg) (get_memory_path sid) = None"
  shows "fst (load_conversation cfg e (snd (save_conversation cfg e w sid (PList (map Message_dict ms)))) sid)
         = Inr (PList (map Message_dict ms))"
proof -
  obtain w' where s: "save_conversation cfg e w sid (PList (map Message_dict ms)) = (Inr (), w')"
    using ok by (cases "save_conversation cfg e w sid (PList (map Message_dict ms))") simp
  have "stored_text cfg w' sid = Some (dumps (PList (map Message_dict ms)))"
    by (rule save_stored[OF s])
  from load_stored[OF this avail] show ?thesis
    unfolding s by (simp only: snd_conv loads_dumps_Messages[OF uni])
qed

lemma unicode_sample_log: "list_all unicode_message sample_log"
  by (simp add: sample_log_def unicode_message_def unicode_text_def str_simps)

lemma s3_config_sel: "USE_S3 s3_config" "\<not> USE_S3 local_config"
  by (simp_all add: s3_config_def local_config_def)

lemma load_bedrock_calls: "bedrock_calls (snd (load_conversation cfg e w sid)) = bedrock_calls w"
  by (auto simp: load_conversation_def os_makedirs_def Let_def split: sum.splits exn.splits option.splits)

lemma save_bedrock_calls: "bedrock_calls (snd (save_conversation cfg e w sid msgs)) = bedrock_calls w"
  by (auto simp: save_conversation_def s3_put_object_def os_makedirs_def Let_def split: option.splits)

lemma call_bedrock_calls:
  "build_messages conversation msg = Inr ms \<Longrightarrow>
   bedrock_calls (snd (call_bedrock cfg e w conversation msg)) = bedrock_calls w @ [converse_request cfg ms]"
  by (auto simp: call_bedrock_def Let_def split: sum.splits exn.splits)

lemma chat_sends:
  assumes ok: "fst (chat cfg e w request) = Inr resp"
    and before: "fst (load_conversation cfg e w (resolve_session_id e request)) = Inr (PList turns)"
    and built: "build_messages (PList turns) (message request) = Inr ms"
  shows "bedrock_calls (snd (chat cfg e w request)) = bedrock_calls w @ [converse_request cfg ms]"
proof -
  obtain w' where ch: "chat cfg e w request = (Inr resp, w')"
    using ok by (cases "chat cfg e w request") simp
  show ?thesis
  proof (rule chat_success[OF ch])
    fix turns' w1 w2 reply
    assume l: "load_conversation cfg e w (resolve_session_id e request) = (Inr (PList turns'), w1)"
      and c: "call_bedrock cfg e w1 (PList turns') (message request) = (Inr (PStr reply), w2)"
      and s: "save_conversation cfg e w2 (resolve_session_id e request)
         (PList (turns' @ [user_turn (message request) (now_first e),
                          assistant_turn (PStr reply) (now_second e)])) = (Inr (), w')"
    have t: "turns' = turns" using l before by simp
    have 1: "bedrock_calls w1 = bedrock_calls w"
      using load_bedrock_calls[of cfg e w "resolve_session_id e request"] l by simp
    have 2: "bedrock_calls w2 = bedrock_calls w1 @ [converse_request cfg ms]"
      using call_bedrock_calls[OF built, of cfg e w1] c t by simp
    have 3: "bedrock_calls w' = bedrock_calls w2"
      using save_bedrock_calls[of cfg e w2 "resolve_session_id e request"
          "PList (turns' @ [user_turn (message request) (now_first e),
                          assistant_turn (PStr reply) (now_second e)])"] s by simp
    show ?thesis using 1 2 3 ch by simp
  qed
qed

lemma unicode_numbered_log: "list_all unicode_message (numbered_log 25)"
  by (auto simp: numbered_log_def list_all_iff unicode_message_def unicode_text_def str_simps)

lemma length_numbered_log: "length (numbered_log n) = n"
  by (simp add: numbered_log_def)

lemma resolve_hello: "resolve_session_id e hello = str ''s1''"
  by (simp add: hello_def resolve_session_id_def str_simps)

lemma first_turn_loaded:
  assumes "unicode_text msg" "unicode_text reply" "unicode_text t1" "unicode_text t2"
  shows "fst (load_conversation local_config (replying_env reply t1 t2)
           (snd (chat local_config (replying_env reply t1 t2) empty_world
                   \<lparr>message = msg, session_id = Some (str ''s1'')\<rparr>))
           (str ''s1''))
         = Inr (PList [user_turn msg t1, assistant_turn (PStr reply) t2])"
proof -
  let ?e = "replying_env reply t1 t2"
  let ?rq = "\<lparr>message = msg, session_id = Some (str ''s1'')\<rparr>"
  have r: "resolve_session_id ?e ?rq = str ''s1''"
    by (simp add: resolve_session_id_def str_simps)
  have ok: "fst (chat local_config ?e empty_world ?rq) = Inr \<lparr>response = reply, session_id = str ''s1''\<rparr>"
    using chat_local_first_turn_any[of reply t1 t2 msg "Some (str ''s1'')"] r by simp
  have before: "fst (load_conversation local_config ?e empty_world (resolve_session_id ?e ?rq))
                = Inr (PList (map Message_dict []))"
    using load_empty_world[of reply t1 t2 "resolve_session_id ?e ?rq"] by simp
  have "fst (load_conversation local_config ?e (snd (chat local_config ?e empty_world ?rq))
               (resolve_session_id ?e ?rq))
        = Inr (PList (map Message_dict []
              @ [user_turn (message ?rq) (now_first ?e),
                 assistant_turn (PStr (response \<lparr>response = reply, session_id = str ''s1''\<rparr>)) (now_second ?e)]))"
    by (rule chat_then_load[OF ok before]) (simp_all add: assms replying_env_sel s3_config_sel)
  then show ?thesis
    by (simp add: r replying_env_sel)
qed

lemma user_turn_items:
  "getitem_key (user_turn msg now) (str ''role'') = Inr (PStr (str ''user''))"
  "getitem_key (user_turn msg now) (str ''content'') = Inr (PStr msg)"
  "getitem_key (assistant_turn reply now) (str ''role'') = Inr (PStr (str ''assistant''))"
  "getitem_key (assistant_turn reply now) (str ''content'') = Inr reply"
  by (simp_all add: user_turn_def assistant_turn_def keys_distinct)

lemma user_content_nonempty_user_turn: "user_content_nonempty (user_turn msg now) = (msg \<noteq> [])"
  by (simp add: user_content_nonempty_def user_turn_items)

lemma log_timestamps_turns:
  "log_timestamps [] = []"
  "log_timestamps (user_turn msg t # xs) = t # log_timestamps xs"
  "log_timestamps (assistant_turn reply t # xs) = t # log_timestamps xs"
  by (simp_all add: log_timestamps_def turn_timestamp_def user_turn_def assistant_turn_def keys_distinct)

lemma load_local_env:
  "\<not> USE_S3 cfg \<Longrightarrow> load_conversation cfg e w sid = load_conversation cfg e' w sid"
  by (simp add: load_conversation_def)


subsection \<open>Session ids, stored names and the reply of the model\<close>

lemma hexdigit_inj: "a < 16 \<Longrightarrow> b < 16 \<Longrightarrow> hexdigit a = hexdigit b \<Longrightarrow> a = b"
  by (auto simp: hexdigit_def split: if_splits)

lemma nibble_less: "unat ((x :: 128 word) AND 0xf) < 16"
proof -
  have "x AND 0xf \<le> 0xf" by (rule word_and_le1)
  then show ?thesis by (simp add: word_le_nat_alt)
qed

lemma bit_0xf: "bit (0xf :: 128 word) q = (q < 4)"
proof -
  have eq: "(0xf :: 128 word) = mask 4" by (simp add: mask_eq_exp_minus_1)
  show ?thesis by (subst eq) (auto simp: bit_mask_iff)
qed

lemma length_hex32: "length (hex32 n) = 32"
  by (simp add: hex32_def)

lemma hex32_nth: "i < 32 \<Longrightarrow> hex32 n ! i = hexdigit (unat (drop_bit (4 * (31 - i)) n AND 0xf))"
  by (simp add: hex32_def)

lemma hex32_inj:
  assumes "hex32 n = hex32 m"
  shows "n = m"
proof (rule bit_eqI)
  fix k
  assume "possible_bit TYPE(128 word) k"
  then have k: "k < 128" by (simp add: possible_bit_def)
  define j where "j = k div 4"
  define q where "q = k mod 4"
  have j: "j < 32" and q: "q < 4" and kq: "k = 4 * j + q"
    using k by (simp_all add: j_def q_def)
  define i where "i = 31 - j"
  have i: "i < 32" and ij: "31 - i = j" using j by (simp_all add: i_def)
  have "hex32 n ! i = hex32 m ! i" using assms by simp
  then have "hexdigit (unat (drop_bit (4 * j) n AND 0xf)) = hexdigit (unat (drop_bit (4 * j) m AND 0xf))"
    using i by (simp add: hex32_nth ij)
  then have "unat (drop_bit (4 * j) n AND 0xf) = unat (drop_bit (4 * j) m AND 0xf)"
    by (rule hexdigit_inj[OF nibble_less nibble_less])
  then have e: "drop_bit (4 * j) n AND 0xf = drop_bit (4 * j) m AND 0xf"
    by (simp add: word_unat_eq_iff)
  have "bit (drop_bit (4 * j) n AND 0xf) q = bit (drop_bit (4 * j) m AND 0xf) q"
    by (simp only: e)
  then have "(bit (drop_bit (4 * j) n) q \<and> bit (0xf :: 128 word) q)
           = (bit (drop_bit (4 * j) m) q \<and> bit (0xf :: 128 word) q)"
    by (simp only: bit_and_iff)
  then have "bit (drop_bit (4 * j) n) q = bit (drop_bit (4 * j) m) q"
    using q by (simp only: bit_0xf) simp
  then show "bit n k = bit m k"
    by (simp add: bit_drop_bit_eq kq)
qed

lemma str_uuid_hex32:
  "take 8 (str_uuid n) @ take 4 (drop 9 (str_uuid n)) @ take 4 (drop 14 (str_uuid n))
     @ take 4 (drop 19 (str_uuid n)) @ drop 24 (str_uuid n) = hex32 n"
proof -
  define h where "h = hex32 n"
  have l: "length h = 32" by (simp add: h_def length_hex32)
  have s: "str_uuid n = take 8 h @ [45] @ take 4 (drop 8 h) @ [45] @ take 4 (drop 12 h) @ [45]
         @ take 4 (drop 16 h) @ [45] @ drop 20 h"
    by (simp add: str_uuid_def Let_def h_def)
  have "take 8 h @ take 4 (drop 8 h) @ take 4 (drop 12 h) @ take 4 (drop 16 h) @ drop 20 h = h"
  proof -
    have a: "take 12 h = take 8 h @ take 4 (drop 8 h)" using take_add[of 8 4 h] by simp
    have b: "take 16 h = take 12 h @ take 4 (drop 12 h)" using take_add[of 12 4 h] by simp
    have c: "take 20 h = take 16 h @ take 4 (drop 16 h)" using take_add[of 16 4 h] by simp
    have "take 20 h @ drop 20 h = h" by simp
    then show ?thesis unfolding c b a by simp
  qed
  then show ?thesis
    unfolding s h_def[symmetric] using l by simp
qed

lemma str_uuid_inj: "str_uuid n = str_uuid m \<Longrightarrow> n = m"
proof -
  assume "str_uuid n = str_uuid m"
  then have "hex32 n = hex32 m"
    using str_uuid_hex32[of n] str_uuid_hex32[of m] by simp
  then show "n = m" by (rule hex32_inj)
qed

lemma bit_consts:
  "bit (0xc000 :: 128 word) j = (j = 14 \<or> j = 15)"
  "bit (0x8000 :: 128 word) j = (j = 15)"
  "bit (0xf000 :: 128 word) j = (12 \<le> j \<and> j < 16)"
  "bit (4 :: 128 word) j = (j = 2)"
proof -
  have a: "(0xc000 :: 128 word) = push_bit 14 (mask 2)" by (simp add: mask_eq_exp_minus_1 push_bit_eq_mult)
  have b: "(0x8000 :: 128 word) = push_bit 15 1" by (simp add: push_bit_eq_mult)
  have c: "(0xf000 :: 128 word) = push_bit 12 (mask 4)" by (simp add: mask_eq_exp_minus_1 push_bit_eq_mult)
  have d: "(4 :: 128 word) = push_bit 2 1" by (simp add: push_bit_eq_mult)
  show "bit (0xc000 :: 128 word) j = (j = 14 \<or> j = 15)"
    by (subst a) (simp only: bit_push_bit_iff bit_mask_iff possible_bit_word, auto)
  show "bit (0x8000 :: 128 word) j = (j = 15)"
    by (subst b) (simp only: bit_push_bit_iff bit_1_iff possible_bit_word, auto)
  show "bit (0xf000 :: 128 word) j = (12 \<le> j \<and> j < 16)"
    by (subst c) (simp only: bit_push_bit_iff bit_mask_iff possible_bit_word, auto)
  show "bit (4 :: 128 word) j = (j = 2)"
    by (subst d) (simp only: bit_push_bit_iff bit_1_iff possible_bit_word, auto)
qed

lemma bit_uuid4_masks:
  "bit (push_bit 48 (0xc000 :: 128 word)) k = (k = 62 \<or> k = 63)"
  "bit (push_bit 48 (0x8000 :: 128 word)) k = (k = 63)"
  "bit (push_bit 64 (0xf000 :: 128 word)) k = (76 \<le> k \<and> k < 80)"
  "bit (push_bit 76 (4 :: 128 word)) k = (k = 78)"
proof -
  show "bit (push_bit 48 (0xc000 :: 128 word)) k = (k = 62 \<or> k = 63)"
    by (simp only: bit_push_bit_iff bit_consts possible_bit_word) auto
  show "bit (push_bit 48 (0x8000 :: 128 word)) k = (k = 63)"
    by (simp only: bit_push_bit_iff bit_consts possible_bit_word) auto
  show "bit (push_bit 64 (0xf000 :: 128 word)) k = (76 \<le> k \<and> k < 80)"
    by (simp only: bit_push_bit_iff bit_consts possible_bit_word) auto
  show "bit (push_bit 76 (4 :: 128 word)) k = (k = 78)"
    by (simp only: bit_push_bit_iff bit_consts possible_bit_word) auto
qed

lemma bit_uuid4_int:
  assumes "k < 128"
  shows "bit (uuid4_int r) k =
     (if k = 63 \<or> k = 78 then True
      else if k = 62 \<or> k = 76 \<or> k = 77 \<or> k = 79 then False
      else bit r k)"
  unfolding uuid4_int_def
  using assms
  by (simp only: bit_or_iff bit_and_iff bit_not_iff bit_uuid4_masks possible_bit_word) auto

lemma uuid4_differs:
  assumes "k < 128" "k \<notin> {62, 63, 76, 77, 78, 79}" "bit r k \<noteq> bit r' k"
  shows "str_uuid (uuid4_int r) \<noteq> str_uuid (uuid4_int r')"
proof
  assume "str_uuid (uuid4_int r) = str_uuid (uuid4_int r')"
  then have "uuid4_int r = uuid4_int r'" by (rule str_uuid_inj)
  then have "bit (uuid4_int r) k = bit (uuid4_int r') k" by simp
  then have "bit r k = bit r' k"
    using assms(1,2) by (simp add: bit_uuid4_int)
  with assms(3) show False by simp
qed

lemma version_nibble: "drop_bit 76 (uuid4_int r) AND 0xf = 4"
proof (rule bit_eqI)
  fix q
  assume "possible_bit TYPE(128 word) q"
  then have q: "q < 128" by (simp add: possible_bit_word)
  show "bit (drop_bit 76 (uuid4_int r) AND 0xf) q = bit (4 :: 128 word) q"
  proof (cases "q < 4")
    case True
    then have "bit (uuid4_int r) (76 + q) = (q = 2)"
      by (auto simp: bit_uuid4_int)
    then show ?thesis
      using True by (simp only: bit_and_iff bit_0xf bit_drop_bit_eq bit_consts) simp
  next
    case False
    then show ?thesis
      by (simp only: bit_and_iff bit_0xf bit_drop_bit_eq bit_consts) auto
  qed
qed

lemma str_uuid_shape:
  "str_uuid n ! 8 = 45" "str_uuid n ! 13 = 45" "str_uuid n ! 18 = 45" "str_uuid n ! 23 = 45"
  "str_uuid n ! 14 = hex32 n ! 12"
  using length_hex32[of n] by (simp_all add: str_uuid_def Let_def nth_append)

lemma str_uuid4_version: "str_uuid (uuid4_int r) ! 14 = 52"
proof -
  have "hex32 (uuid4_int r) ! 12 = hexdigit (unat (drop_bit 76 (uuid4_int r) AND 0xf))"
    by (simp add: hex32_nth)
  also have "\<dots> = 52" by (simp only: version_nibble) (simp add: hexdigit_def)
  finally show ?thesis by (simp only: str_uuid_shape)
qed

lemma get_memory_path_inj: "get_memory_path a = get_memory_path b \<Longrightarrow> a = b"
  by (simp add: get_memory_path_def)

lemma uuid_zero: "str_uuid (uuid4_int 0) = str ''00000000-0000-4000-8000-000000000000''"
  by code_simp

lemma uuid_one: "str_uuid (uuid4_int 1) = str ''00000000-0000-4000-8000-000000000001''"
  by code_simp

lemma stored_text_keys:
  assumes "stored_text cfg w sid = Some x"
  shows "(USE_S3 cfg \<longrightarrow> s3_objects w (S3_BUCKET cfg, sid @ str ''.json'') = Some x)
       \<and> (\<not> USE_S3 cfg \<longrightarrow> files w (os_path_join (MEMORY_DIR cfg) (sid @ str ''.json'')) = Some x)"
  using assms by (simp add: stored_text_def get_memory_path_def split: if_splits)

lemma load_keys:
  "(USE_S3 cfg \<and> s3_get_fault e (S3_BUCKET cfg) (sid @ str ''.json'') = None \<longrightarrow>
      fst (load_conversation cfg e w sid)
        = (case s3_objects w (S3_BUCKET cfg, sid @ str ''.json'') of
             None \<Rightarrow> Inr (PList []) | Some doc \<Rightarrow> loads doc))
   \<and> (\<not> USE_S3 cfg \<longrightarrow>
      fst (load_conversation cfg e w sid)
        = (case files w (os_path_join (MEMORY_DIR cfg) (sid @ str ''.json'')) of
             None \<Rightarrow> Inr (PList []) | Some doc \<Rightarrow> loads doc))"
  by (auto simp: load_conversation_def s3_get_object_def os_makedirs_def get_memory_path_def Let_def
      split: option.splits)

lemma call_bedrock_client_error:
  assumes "build_messages conversation user_message = Inr ms"
    and "converse e (converse_request cfg ms) = Inl (ClientError code detail)"
  shows "fst (call_bedrock cfg e w conversation user_message) = Inl (HTTPException 500 detail)"
  using assms by (simp add: call_bedrock_def Let_def)

lemma chat_fails:
  assumes "fst (load_conversation cfg e w (resolve_session_id e request)) = Inr conversation"
    and "\<And>w1. fst (call_bedrock cfg e w1 conversation (message request)) = Inl err"
  shows "fst (chat cfg e w request) = Inl err"
proof -
  obtain w1 where l: "load_conversation cfg e w (resolve_session_id e request) = (Inr conversation, w1)"
    using assms(1) by (cases "load_conversation cfg e w (resolve_session_id e request)") simp
  obtain w2 where c: "call_bedrock cfg e w1 conversation (message request) = (Inl err, w2)"
    using assms(2)[of w1] by (cases "call_bedrock cfg e w1 conversation (message request)") simp
  show ?thesis
    using l c by (simp add: chat_def Let_def)
qed

lemma resolve_absent:
  "ChatRequest.session_id request = None \<or> ChatRequest.session_id request = Some []
   \<Longrightarrow> resolve_session_id e request = str_uuid (uuid4_int (urandom16 e))"
  by (auto simp: resolve_session_id_def)

lemma chat_keys:
  assumes ok: "fst (chat cfg e w request) = Inr resp"
  shows "ChatResponse.session_id resp = resolve_session_id e request
     \<and> (\<exists>turns.
           fst (load_conversation cfg e w (ChatResponse.session_id resp)) = Inr (PList turns)
         \<and> (USE_S3 cfg \<longrightarrow>
               s3_objects (snd (chat cfg e w request))
                 (S3_BUCKET cfg, ChatResponse.session_id resp @ str ''.json'')
               = Some (dumps (PList (turns @
                   [PDict [(str ''role'', PStr (str ''user'')), (str ''content'', PStr (message request)),
                           (str ''timestamp'', PStr (now_first e))],
                    PDict [(str ''role'', PStr (str ''assistant'')), (str ''content'', PStr (response resp)),
                           (str ''timestamp'', PStr (now_second e))]]))))
         \<and> (\<not> USE_S3 cfg \<longrightarrow>
               files (snd (chat cfg e w request))
                 (os_path_join (MEMORY_DIR cfg) (ChatResponse.session_id resp @ str ''.json''))
               = Some (dumps (PList (turns @
                   [PDict [(str ''role'', PStr (str ''user'')), (str ''content'', PStr (message request)),
                           (str ''timestamp'', PStr (now_first e))],
                    PDict [(str ''role'', PStr (str ''assistant'')), (str ''content'', PStr (response resp)),
                           (str ''timestamp'', PStr (now_second e))]])))))"
proof -
  from chat_effect[OF ok] obtain turns where
    l: "fst (load_conversation cfg e w (resolve_session_id e request)) = Inr (PList turns)"
    and s: "stored_text cfg (snd (chat cfg e w request)) (resolve_session_id e request)
         = Some (dumps (PList (turns @ [user_turn (message request) (now_first e),
                                        assistant_turn (PStr (response resp)) (now_second e)])))"
    and i: "ChatResponse.session_id resp = resolve_session_id e request"
    by (elim exE conjE)
  note k = stored_text_keys[OF s[unfolded user_turn_def assistant_turn_def]]
  show ?thesis
    unfolding i
    by (intro conjI exI[of _ turns] refl l conjunct1[OF k] conjunct2[OF k])
qed

lemma memory_path_zero:
  "os_path_join (MEMORY_DIR local_config) (str ''00000000-0000-4000-8000-000000000000'' @ str ''.json'')
   = str ''../memory/00000000-0000-4000-8000-000000000000.json''"
  by (simp add: os_path_join_def local_config_def str_simps)

lemma call_bedrock_success:
  "call_bedrock cfg e w conv msg = (Inr v, w2) \<Longrightarrow>
   \<exists>ms r. build_messages conv msg = Inr ms \<and> converse e (converse_request cfg ms) = Inr r
         \<and> reply_text r = Inr v"
  by (auto simp: call_bedrock_def Let_def split: sum.splits exn.splits)

lemma reply_text_path:
  "reply_text r = Inr v \<Longrightarrow>
   \<exists>out m c block.
       getitem_key r (str ''output'') = Inr out \<and> getitem_key out (str ''message'') = Inr m
     \<and> getitem_key m (str ''content'') = Inr c \<and> getitem_0 c = Inr block
     \<and> getitem_key block (str ''text'') = Inr v"
  by (auto simp: reply_text_def then_do_def split: sum.splits)

lemma chat_reply:
  assumes ok: "fst (chat cfg e w request) = Inr resp"
  shows "\<exists>turns ms r.
       fst (load_conversation cfg e w (resolve_session_id e request)) = Inr (PList turns)
     \<and> build_messages (PList turns) (message request) = Inr ms
     \<and> converse e (converse_request cfg ms) = Inr r
     \<and> reply_text r = Inr (PStr (response resp))"
proof -
  obtain w' where ch: "chat cfg e w request = (Inr resp, w')"
    using ok by (cases "chat cfg e w request") simp
  show ?thesis
  proof (rule chat_success[OF ch])
    fix turns w1 w2 reply
    assume l: "load_conversation cfg e w (resolve_session_id e request) = (Inr (PList turns), w1)"
      and c: "call_bedrock cfg e w1 (PList turns) (message request) = (Inr (PStr reply), w2)"
      and r: "resp = \<lparr>response = reply, session_id = resolve_session_id e request\<rparr>"
    from call_bedrock_success[OF c] obtain ms r' where
      "build_messages (PList turns) (message request) = Inr ms"
      "converse e (converse_request cfg ms) = Inr r'" "reply_text r' = Inr (PStr reply)"
      by (elim exE conjE)
    then show ?thesis
      using l r by (intro exI[of _ turns] exI[of _ ms] exI[of _ r']) simp
  qed
qed

lemma nondecreasing_snoc_iff:
  "nondecreasing (xs @ [a, b]) = (nondecreasing (xs @ [a]) \<and> str_le a b)"
  by (induction xs rule: nondecreasing.induct) auto

lemma log_timestamps_explicit:
  "log_timestamps (turns @
      [PDict [(str ''role'', r1), (str ''content'', c1), (str ''timestamp'', PStr t1)],
       PDict [(str ''role'', r2), (str ''content'', c2), (str ''timestamp'', PStr t2)]])
   = log_timestamps turns @ [t1, t2]"
  by (simp add: log_timestamps_def turn_timestamp_def keys_distinct)

lemma a_second_later_sel:
  "now_first a_second_later = str ''2024-11-03T01:59:59.300000''"
  "now_second a_second_later = str ''2024-11-03T01:59:59.300009''"
  by (simp_all add: a_second_later_def replying_env_sel)

lemma Message_dict_explicit:
  "Message_dict \<lparr>role = r, content = c, timestamp = t\<rparr>
   = PDict [(str ''role'', PStr r), (str ''content'', PStr c), (str ''timestamp'', PStr t)]"
  by (simp add: Message_dict_def)

lemma nova_of_explicit:
  "nova_of m = PDict [(str ''role'', PStr (role m)),
                      (str ''content'', PList [PDict [(str ''text'', PStr (content m))]])]"
  by (simp add: nova_of_def nova_message_def)

lemma build_messages_explicit:
  "build_messages (PList (map Message_dict ms)) msg
     = Inr (map (\<lambda>m. PDict [(str ''role'', PStr (role m)),
                            (str ''content'', PList [PDict [(str ''text'', PStr (content m))]])])
              (drop (length ms - 20) ms)
            @ [PDict [(str ''role'', PStr (str ''user'')),
                      (str ''content'', PList [PDict [(str ''text'', PStr msg)]])]])"
proof -
  have "map nova_of (drop (length ms - 20) ms)
        = map (\<lambda>m. PDict [(str ''role'', PStr (role m)),
                            (str ''content'', PList [PDict [(str ''text'', PStr (content m))]])])
              (drop (length ms - 20) ms)"
    by (simp add: nova_of_explicit)
  then show ?thesis
    using build_messages_Messages[of ms msg] by (simp add: nova_message_def)
qed

lemma numbered_log_nth: "i < n \<Longrightarrow> numbered_log n ! i
   = \<lparr>role = str ''user'', content = [48 + i], timestamp = str ''2024-11-03T01:00:00''\<rparr>"
  by (simp add: numbered_log_def)


section \<open>The claims\<close>

text \<open>
  Claim C1.  If the model invocation fails for a chat turn, that is, the conversation was
  loaded and \<open>call_bedrock\<close> raises, then \<open>chat\<close> raises the same exception to its
  caller and nothing is saved: every file and every S3 object is what it was before the
  call, so loading any session afterwards gives what it gave before.
\<close>

theorem model_failure_keeps_log:
  assumes "fst (load_conversation cfg e w (resolve_session_id e request)) = Inr conversation"
    and "fst (call_bedrock cfg e (snd (load_conversation cfg e w (resolve_session_id e request)))
               conversation (message request)) = Inl err"
  shows "fst (chat cfg e w request) = Inl err
     \<and> files (snd (chat cfg e w request)) = files w
     \<and> s3_objects (snd (chat cfg e w request)) = s3_objects w
     \<and> (\<forall>sid. fst (load_conversation cfg e (snd (chat cfg e w request)) sid)
               = fst (load_conversation cfg e w sid))"
proof -
  define sid where "sid = resolve_session_id e request"
  obtain r1 w1 where l: "load_conversation cfg e w sid = (r1, w1)"
    by (cases "load_conversation cfg e w sid")
  obtain r2 w2 where c: "call_bedrock cfg e w1 conversation (message request) = (r2, w2)"
    by (cases "call_bedrock cfg e w1 conversation (message request)")
  have r1: "r1 = Inr conversation" and r2: "r2 = Inl err"
    using assms l c by (simp_all add: sid_def[symmetric])
  have ch: "chat cfg e w request = (Inl err, w2)"
    using l c r1 r2 by (simp add: chat_def Let_def sid_def[symmetric])
  have "persisted w1 = persisted w"
    using load_persisted[of cfg e w sid] l by simp
  moreover have "persisted w2 = persisted w1"
    using call_persisted[of cfg e w1 conversation "message request"] c by simp
  ultimately have p: "persisted w2 = persisted w" by simp
  then have "files w2 = files w" "s3_objects w2 = s3_objects w"
    by (simp_all add: persisted_def)
  moreover have "\<forall>s. fst (load_conversation cfg e w2 s) = fst (load_conversation cfg e w s)"
    using load_depends_on_persisted[OF p] by blast
  ultimately show ?thesis using ch by simp
qed

text \<open>
  The theorem at work: Bedrock throttles the first request of session \<open>s1\<close>; the caller
  gets the HTTP error and the store stays empty.
\<close>

theorem model_failure_keeps_log_witness:
  "fst (chat local_config (failing_env throttled) empty_world hello)
     = Inl (HTTPException 500 (str ''Too many requests''))
   \<and> files (snd (chat local_config (failing_env throttled) empty_world hello)) = files empty_world
   \<and> s3_objects (snd (chat local_config (failing_env throttled) empty_world hello)) = s3_objects empty_world
   \<and> (\<forall>sid. fst (load_conversation local_config (failing_env throttled)
                 (snd (chat local_config (failing_env throttled) empty_world hello)) sid)
               = fst (load_conversation local_config (failing_env throttled) empty_world sid))"
  using model_failure_keeps_log[of local_config "failing_env throttled" empty_world hello "PList []"
      "HTTPException 500 (str ''Too many requests'')"]
  by (simp add: load_conversation_def local_config_def empty_world_def os_makedirs_def Let_def
      call_bedrock_def build_messages_def then_do_def failing_env_def replying_env_def throttled_def)

text \<open>
  Claim C8.  For the empty log and the user message \<open>Hi\<close> the request has two entries:
  the system instruction, and one user turn whose content is \<open>Hi\<close>; this is the request
  that \<open>call_bedrock\<close> sends.
\<close>

theorem empty_history_request:
  "build_messages (PList []) (str ''Hi'')
     = Inr [PDict [(str ''role'', PStr (str ''user'')),
                   (str ''content'', PList [PDict [(str ''text'', PStr (str ''Hi''))]])]]
   \<and> system (converse_request cfg [nova_message (PStr (str ''user'')) (PStr (str ''Hi''))])
       = [PDict [(str ''text'', PStr (prompt cfg))]]
   \<and> messages (converse_request cfg [nova_message (PStr (str ''user'')) (PStr (str ''Hi''))])
       = [PDict [(str ''role'', PStr (str ''user'')),
                 (str ''content'', PList [PDict [(str ''text'', PStr (str ''Hi''))]])]]
   \<and> request_entries (converse_request cfg [nova_message (PStr (str ''user'')) (PStr (str ''Hi''))]) = 2
   \<and> bedrock_calls (snd (call_bedrock cfg e w (PList []) (str ''Hi'')))
       = bedrock_calls w @ [converse_request cfg [nova_message (PStr (str ''user'')) (PStr (str ''Hi''))]]"
  by (simp add: build_messages_def converse_request_def then_do_def nova_message_def
      request_entries_def call_bedrock_def Let_def split: sum.splits exn.splits)

text \<open>
  Claim C9.  \<open>load_linkedin_text\<close> is documented as loading the profile text without
  crashing the application.  It does not when the file is there but cannot be read as a
  PDF, or may not be opened: \<open>PdfReader\<close> raises, only \<open>FileNotFoundError\<close> is
  caught around it, and the exception leaves the function (at import time).
\<close>

theorem load_linkedin_text_unreadable_pdf:
  "load_linkedin_text (Inl PdfReadError) = Inl PdfReadError
   \<and> load_linkedin_text (Inl PermissionError) = Inl PermissionError"
  by (simp add: load_linkedin_text_def then_do_def)

text \<open>
  Claim C4, as stated: every transport-level failure of the model invocation, be it
  authentication, quota, network or a malformed response, is re-raised as one uniform
  error carrying the diagnostic message.  The handler of \<open>call_bedrock\<close> is
  \<open>except ClientError\<close>.  When the endpoint cannot be reached botocore raises an
  exception that is no \<open>ClientError\<close>, and when the answer has no content block the
  subscript raises \<open>IndexError\<close>: both leave \<open>call_bedrock\<close> as they are.
\<close>

theorem transport_failures_not_all_normalised:
  "fst (call_bedrock local_config (failing_env unreachable) empty_world (PList []) (str ''Hi''))
     = Inl (BotoCoreError (str ''Could not connect to the endpoint URL''))
   \<and> fst (call_bedrock local_config no_block_env empty_world (PList []) (str ''Hi'')) = Inl IndexError"
  by (simp add: call_bedrock_def build_messages_def then_do_def Let_def failing_env_def
      replying_env_def unreachable_def no_block_env_def reply_text_def str_simps)

text \<open>
  Claim C4, amended: every failure that the transport raises as a \<open>ClientError\<close>
  (the errors the service itself reports, such as a rejected credential or an exhausted
  quota) is caught by \<open>call_bedrock\<close> and re-raised as \<open>HTTPException\<close> with
  status 500 and the text of the error as detail, and the chat route fails with that same
  error.  Nothing is stated about retries: \<open>call_bedrock\<close> has no retry loop of its own,
  and what the botocore client does before it raises is outside this statement.
\<close>

theorem client_error_normalised:
  assumes "build_messages conversation user_message = Inr ms"
    and "converse e (converse_request cfg ms) = Inl (ClientError code detail)"
  shows "fst (call_bedrock cfg e w conversation user_message) = Inl (HTTPException 500 detail)
     \<and> (\<forall>w0 request.
           fst (load_conversation cfg e w0 (resolve_session_id e request)) = Inr conversation
           \<and> message request = user_message
           \<longrightarrow> fst (chat cfg e w0 request) = Inl (HTTPException 500 detail))"
proof (intro conjI allI impI)
  show "fst (call_bedrock cfg e w conversation user_message) = Inl (HTTPException 500 detail)"
    by (rule call_bedrock_client_error[OF assms])
next
  fix w0 request
  assume a: "fst (load_conversation cfg e w0 (resolve_session_id e request)) = Inr conversation
           \<and> message request = user_message"
  then have l: "fst (load_conversation cfg e w0 (resolve_session_id e request)) = Inr conversation"
    and m: "message request = user_message" by simp_all
  show "fst (chat cfg e w0 request) = Inl (HTTPException 500 detail)"
    using l unfolding m[symmetric]
    by (rule chat_fails) (simp add: m call_bedrock_client_error[OF assms])
qed

text \<open>Bedrock throttles a first request: the wrapper and the chat route raise the HTTP error.\<close>

theorem client_error_normalised_witness:
  "fst (call_bedrock local_config (failing_env throttled) empty_world (PList []) (str ''Hi''))
     = Inl (HTTPException 500 (str ''Too many requests''))
   \<and> fst (chat local_config (failing_env throttled) empty_world hello)
     = Inl (HTTPException 500 (str ''Too many requests''))"
proof -
  have b: "build_messages (PList []) (str ''Hi'')
           = Inr [nova_message (PStr (str ''user'')) (PStr (str ''Hi''))]"
    by (rule build_messages_empty)
  have c: "converse (failing_env throttled)
             (converse_request local_config [nova_message (PStr (str ''user'')) (PStr (str ''Hi''))])
           = Inl (ClientError (str ''ThrottlingException'') (str ''Too many requests''))"
    by (simp add: failing_env_def replying_env_def throttled_def)
  note T = client_error_normalised[OF b c, of empty_world]
  have l: "fst (load_conversation local_config (failing_env throttled) empty_world
                 (resolve_session_id (failing_env throttled) hello)) = Inr (PList [])"
    by (simp add: load_conversation_def local_config_def empty_world_def os_makedirs_def Let_def)
  have m: "message hello = str ''Hi''" by (simp add: hello_def)
  from conjunct1[OF T] conjunct2[OF T, rule_format, OF conjI[OF l m]]
  show ?thesis by (intro conjI)
qed



text \<open>
  Claim C10.  When the request carries no session id, or the empty string, the id is
  \<open>str(uuid.uuid4())\<close>: 36 characters with hyphens at positions 8, 13, 18 and 23 and
  the version digit 4 at position 14, computed from sixteen random bytes so that two draws
  which differ in any of the 122 bits that \<open>uuid4\<close> keeps give different ids.  A
  non-empty id is used as given, and the id in use is never empty.  The conversation is
  read from the object or file named by the id followed by \<open>.json\<close>; after a
  successful turn the response carries that id and the extended conversation is stored
  under that same name.
\<close>

theorem session_id_resolution:
  "(ChatRequest.session_id request = None \<or> ChatRequest.session_id request = Some [] \<longrightarrow>
        resolve_session_id e request = str_uuid (uuid4_int (urandom16 e))
      \<and> length (resolve_session_id e request) = 36
      \<and> resolve_session_id e request ! 8 = 45 \<and> resolve_session_id e request ! 13 = 45
      \<and> resolve_session_id e request ! 18 = 45 \<and> resolve_session_id e request ! 23 = 45
      \<and> resolve_session_id e request ! 14 = 52
      \<and> (\<forall>e' request' k.
            (ChatRequest.session_id request' = None \<or> ChatRequest.session_id request' = Some [])
            \<and> k < 128 \<and> k \<notin> {62, 63, 76, 77, 78, 79}
            \<and> bit (urandom16 e') k \<noteq> bit (urandom16 e) k
            \<longrightarrow> resolve_session_id e' request' \<noteq> resolve_session_id e request))
   \<and> (\<forall>s. ChatRequest.session_id request = Some s \<and> s \<noteq> [] \<longrightarrow> resolve_session_id e request = s)
   \<and> resolve_session_id e request \<noteq> []
   \<and> (\<forall>sid.
         (USE_S3 cfg \<and> s3_get_fault e (S3_BUCKET cfg) (sid @ str ''.json'') = None \<longrightarrow>
            fst (load_conversation cfg e w sid)
              = (case s3_objects w (S3_BUCKET cfg, sid @ str ''.json'') of
                   None \<Rightarrow> Inr (PList []) | Some doc \<Rightarrow> loads doc))
       \<and> (\<not> USE_S3 cfg \<longrightarrow>
            fst (load_conversation cfg e w sid)
              = (case files w (os_path_join (MEMORY_DIR cfg) (sid @ str ''.json'')) of
                   None \<Rightarrow> Inr (PList []) | Some doc \<Rightarrow> loads doc)))
   \<and> (\<forall>resp. fst (chat cfg e w request) = Inr resp \<longrightarrow>
         ChatResponse.session_id resp = resolve_session_id e request
       \<and> (\<exists>turns.
             fst (load_conversation cfg e w (ChatResponse.session_id resp)) = Inr (PList turns)
           \<and> (USE_S3 cfg \<longrightarrow>
                 s3_objects (snd (chat cfg e w request))
                   (S3_BUCKET cfg, ChatResponse.session_id resp @ str ''.json'')
                 = Some (dumps (PList (turns @
                   [PDict [(str ''role'', PStr (str ''user'')), (str ''content'', PStr (message request)),
                           (str ''timestamp'', PStr (now_first e))],
                    PDict [(str ''role'', PStr (str ''assistant'')), (str ''content'', PStr (response resp)),
                           (str ''timestamp'', PStr (now_second e))]]))))
           \<and> (\<not> USE_S3 cfg \<longrightarrow>
                 files (snd (chat cfg e w request))
                   (os_path_join (MEMORY_DIR cfg) (ChatResponse.session_id resp @ str ''.json''))
                 = Some (dumps (PList (turns @
                   [PDict [(str ''role'', PStr (str ''user'')), (str ''content'', PStr (message request)),
                           (str ''timestamp'', PStr (now_first e))],
                    PDict [(str ''role'', PStr (str ''assistant'')), (str ''content'', PStr (response resp)),
                           (str ''timestamp'', PStr (now_second e))]]))))))"
proof (intro conjI)
  show "ChatRequest.session_id request = None \<or> ChatRequest.session_id request = Some [] \<longrightarrow>
        resolve_session_id e request = str_uuid (uuid4_int (urandom16 e))
      \<and> length (resolve_session_id e request) = 36
      \<and> resolve_session_id e request ! 8 = 45 \<and> resolve_session_id e request ! 13 = 45
      \<and> resolve_session_id e request ! 18 = 45 \<and> resolve_session_id e request ! 23 = 45
      \<and> resolve_session_id e request ! 14 = 52
      \<and> (\<forall>e' request' k.
            (ChatRequest.session_id request' = None \<or> ChatRequest.session_id request' = Some [])
            \<and> k < 128 \<and> k \<notin> {62, 63, 76, 77, 78, 79}
            \<and> bit (urandom16 e') k \<noteq> bit (urandom16 e) k
            \<longrightarrow> resolve_session_id e' request' \<noteq> resolve_session_id e request)"
  proof (intro impI)
    assume h: "ChatRequest.session_id request = None \<or> ChatRequest.session_id request = Some []"
    have r: "resolve_session_id e request = str_uuid (uuid4_int (urandom16 e))"
      by (rule resolve_absent[OF h])
    have f: "\<forall>e' request' k.
            (ChatRequest.session_id request' = None \<or> ChatRequest.session_id request' = Some [])
            \<and> k < 128 \<and> k \<notin> {62, 63, 76, 77, 78, 79}
            \<and> bit (urandom16 e') k \<noteq> bit (urandom16 e) k
            \<longrightarrow> resolve_session_id e' request' \<noteq> str_uuid (uuid4_int (urandom16 e))"
    proof (intro allI impI)
      fix e' :: env and request' :: ChatRequest and k
      assume a: "(ChatRequest.session_id request' = None \<or> ChatRequest.session_id request' = Some [])
            \<and> k < 128 \<and> k \<notin> {62, 63, 76, 77, 78, 79}
            \<and> bit (urandom16 e') k \<noteq> bit (urandom16 e) k"
      then have r': "resolve_session_id e' request' = str_uuid (uuid4_int (urandom16 e'))"
        using resolve_absent[of request' e'] by simp
      from a have "k < 128" "k \<notin> {62, 63, 76, 77, 78, 79}" "bit (urandom16 e') k \<noteq> bit (urandom16 e) k"
        by simp_all
      then show "resolve_session_id e' request' \<noteq> str_uuid (uuid4_int (urandom16 e))"
        unfolding r' by (rule uuid4_differs)
    qed
    show "resolve_session_id e request = str_uuid (uuid4_int (urandom16 e))
      \<and> length (resolve_session_id e request) = 36
      \<and> resolve_session_id e request ! 8 = 45 \<and> resolve_session_id e request ! 13 = 45
      \<and> resolve_session_id e request ! 18 = 45 \<and> resolve_session_id e request ! 23 = 45
      \<and> resolve_session_id e request ! 14 = 52
      \<and> (\<forall>e' request' k.
            (ChatRequest.session_id request' = None \<or> ChatRequest.session_id request' = Some [])
            \<and> k < 128 \<and> k \<notin> {62, 63, 76, 77, 78, 79}
            \<and> bit (urandom16 e') k \<noteq> bit (urandom16 e) k
            \<longrightarrow> resolve_session_id e' request' \<noteq> resolve_session_id e request)"
      unfolding r
      by (intro conjI refl length_str_uuid str_uuid_shape(1-4) str_uuid4_version f)
  qed
  show "\<forall>s. ChatRequest.session_id request = Some s \<and> s \<noteq> [] \<longrightarrow> resolve_session_id e request = s"
    by (simp add: resolve_session_id_def)
  show "resolve_session_id e request \<noteq> []"
    by (rule resolve_nonempty)
  show "\<forall>sid.
         (USE_S3 cfg \<and> s3_get_fault e (S3_BUCKET cfg) (sid @ str ''.json'') = None \<longrightarrow>
            fst (load_conversation cfg e w sid)
              = (case s3_objects w (S3_BUCKET cfg, sid @ str ''.json'') of
                   None \<Rightarrow> Inr (PList []) | Some doc \<Rightarrow> loads doc))
       \<and> (\<not> USE_S3 cfg \<longrightarrow>
            fst (load_conversation cfg e w sid)
              = (case files w (os_path_join (MEMORY_DIR cfg) (sid @ str ''.json'')) of
                   None \<Rightarrow> Inr (PList []) | Some doc \<Rightarrow> loads doc))"
    by (intro allI) (rule load_keys)
  show "\<forall>resp. fst (chat cfg e w request) = Inr resp \<longrightarrow>
         ChatResponse.session_id resp = resolve_session_id e request
       \<and> (\<exists>turns.
             fst (load_conversation cfg e w (ChatResponse.session_id resp)) = Inr (PList turns)
           \<and> (USE_S3 cfg \<longrightarrow>
                 s3_objects (snd (chat cfg e w request))
                   (S3_BUCKET cfg, ChatResponse.session_id resp @ str ''.json'')
                 = Some (dumps (PList (turns @
                   [PDict [(str ''role'', PStr (str ''user'')), (str ''content'', PStr (message request)),
                           (str ''timestamp'', PStr (now_first e))],
                    PDict [(str ''role'', PStr (str ''assistant'')), (str ''content'', PStr (response resp)),
                           (str ''timestamp'', PStr (now_second e))]]))))
           \<and> (\<not> USE_S3 cfg \<longrightarrow>
                 files (snd (chat cfg e w request))
                   (os_path_join (MEMORY_DIR cfg) (ChatResponse.session_id resp @ str ''.json''))
                 = Some (dumps (PList (turns @
                   [PDict [(str ''role'', PStr (str ''user'')), (str ''content'', PStr (message request)),
                           (str ''timestamp'', PStr (now_first e))],
                    PDict [(str ''role'', PStr (str ''assistant'')), (str ''content'', PStr (response resp)),
                           (str ''timestamp'', PStr (now_second e))]])))))"
    by (intro allI impI) (rule chat_keys)
qed

text \<open>
  A first turn with the empty string as session id, and one with none: the id is the
  version-4 UUID of sixteen zero bytes, another draw gives another id, and the log is
  stored in the file named after the id.
\<close>

theorem session_id_resolution_witness:
  "resolve_session_id
       (replying_env (str ''Hello'') (str ''2024-11-03T01:00:00.000120'') (str ''2024-11-03T01:00:00.000131''))
       \<lparr>message = str ''Hi'', session_id = Some []\<rparr>
     = str ''00000000-0000-4000-8000-000000000000''
   \<and> resolve_session_id
       (replying_env (str ''Hello'') (str ''2024-11-03T01:00:00.000120'') (str ''2024-11-03T01:00:00.000131''))
       \<lparr>message = str ''Hi'', session_id = None\<rparr>
     = str ''00000000-0000-4000-8000-000000000000''
   \<and> resolve_session_id
       ((replying_env (str ''Hello'') (str ''2024-11-03T01:00:00.000120'') (str ''2024-11-03T01:00:00.000131''))
          \<lparr>urandom16 := 1\<rparr>)
       \<lparr>message = str ''Hi'', session_id = None\<rparr>
     \<noteq> str ''00000000-0000-4000-8000-000000000000''
   \<and> fst (chat local_config
         (replying_env (str ''Hello'') (str ''2024-11-03T01:00:00.000120'') (str ''2024-11-03T01:00:00.000131''))
         empty_world \<lparr>message = str ''Hi'', session_id = Some []\<rparr>)
     = Inr \<lparr>response = str ''Hello'', session_id = str ''00000000-0000-4000-8000-000000000000''\<rparr>
   \<and> files (snd (chat local_config
         (replying_env (str ''Hello'') (str ''2024-11-03T01:00:00.000120'') (str ''2024-11-03T01:00:00.000131''))
         empty_world \<lparr>message = str ''Hi'', session_id = Some []\<rparr>))
       (str ''../memory/00000000-0000-4000-8000-000000000000.json'')
     = Some (dumps (PList
         [PDict [(str ''role'', PStr (str ''user'')), (str ''content'', PStr (str ''Hi'')),
                 (str ''timestamp'', PStr (str ''2024-11-03T01:00:00.000120''))],
          PDict [(str ''role'', PStr (str ''assistant'')), (str ''content'', PStr (str ''Hello'')),
                 (str ''timestamp'', PStr (str ''2024-11-03T01:00:00.000131''))]]))"
proof -
  let ?e = "replying_env (str ''Hello'') (str ''2024-11-03T01:00:00.000120'') (str ''2024-11-03T01:00:00.000131'')"
  let ?rq = "\<lparr>message = str ''Hi'', session_id = Some []\<rparr>"
  let ?rn = "\<lparr>message = str ''Hi'', session_id = None\<rparr>"
  let ?z = "str ''00000000-0000-4000-8000-000000000000''"
  note T = session_id_resolution[where request = ?rq and e = ?e and cfg = local_config and w = empty_world]
  note Tn = session_id_resolution[where request = ?rn and e = ?e and cfg = local_config and w = empty_world]
  have h: "ChatRequest.session_id ?rq = None \<or> ChatRequest.session_id ?rq = Some []" by simp
  have hn: "ChatRequest.session_id ?rn = None \<or> ChatRequest.session_id ?rn = Some []" by simp
  note A = conjunct1[OF T, rule_format, OF h]
  note An = conjunct1[OF Tn, rule_format, OF hn]
  have z: "str_uuid (uuid4_int (urandom16 ?e)) = ?z"
    by (simp only: replying_env_sel uuid_zero)
  have r: "resolve_session_id ?e ?rq = ?z"
    using conjunct1[OF A] z by simp
  have n: "resolve_session_id ?e ?rn = ?z"
    using conjunct1[OF An] z by simp
  note F = conjunct2[OF conjunct2[OF conjunct2[OF conjunct2[OF conjunct2[OF conjunct2[OF conjunct2[OF A]]]]]]]
  have p: "(ChatRequest.session_id ?rn = None \<or> ChatRequest.session_id ?rn = Some [])
        \<and> (0::nat) < 128 \<and> (0::nat) \<notin> {62, 63, 76, 77, 78, 79}
        \<and> bit (urandom16 (?e\<lparr>urandom16 := 1\<rparr>)) (0::nat) \<noteq> bit (urandom16 ?e) (0::nat)"
    by (simp add: replying_env_sel)
  have d: "resolve_session_id (?e\<lparr>urandom16 := 1\<rparr>) ?rn \<noteq> ?z"
    using F[rule_format, OF p] r by simp
  have ok: "fst (chat local_config ?e empty_world ?rq) = Inr \<lparr>response = str ''Hello'', session_id = ?z\<rparr>"
    using chat_local_first_turn_any[of "str ''Hello''" "str ''2024-11-03T01:00:00.000120''"
        "str ''2024-11-03T01:00:00.000131''" "str ''Hi''" "Some []"] r by simp
  note D = conjunct2[OF conjunct2[OF conjunct2[OF conjunct2[OF T]]], rule_format, OF ok]
  from conjunct2[OF D] obtain turns where
    l: "fst (load_conversation local_config ?e empty_world
              (ChatResponse.session_id \<lparr>response = str ''Hello'', session_id = ?z\<rparr>)) = Inr (PList turns)"
    and f: "\<not> USE_S3 local_config \<longrightarrow>
       files (snd (chat local_config ?e empty_world ?rq))
         (os_path_join (MEMORY_DIR local_config)
            (ChatResponse.session_id \<lparr>response = str ''Hello'', session_id = ?z\<rparr> @ str ''.json''))
       = Some (dumps (PList (turns @
             [PDict [(str ''role'', PStr (str ''user'')), (str ''content'', PStr (message ?rq)),
                     (str ''timestamp'', PStr (now_first ?e))],
              PDict [(str ''role'', PStr (str ''assistant'')),
                     (str ''content'', PStr (response \<lparr>response = str ''Hello'', session_id = ?z\<rparr>)),
                     (str ''timestamp'', PStr (now_second ?e))]])))"
    by (elim exE conjE)
  have t: "turns = []"
    using l load_empty_world[of "str ''Hello''" "str ''2024-11-03T01:00:00.000120''"
        "str ''2024-11-03T01:00:00.000131''" ?z] by simp
  have s: "files (snd (chat local_config ?e empty_world ?rq))
       (str ''../memory/00000000-0000-4000-8000-000000000000.json'')
     = Some (dumps (PList
         [PDict [(str ''role'', PStr (str ''user'')), (str ''content'', PStr (str ''Hi'')),
                 (str ''timestamp'', PStr (str ''2024-11-03T01:00:00.000120''))],
          PDict [(str ''role'', PStr (str ''assistant'')), (str ''content'', PStr (str ''Hello'')),
                 (str ''timestamp'', PStr (str ''2024-11-03T01:00:00.000131''))]]))"
    using f by (simp add: t s3_config_sel replying_env_sel memory_path_zero)
  from r n d ok s show ?thesis by (intro conjI)
qed

text \<open>
  Claim C2.  For a stored log of turns, the messages of the request are the last twenty
  turns at most, in the order of the log, each with its role and with its content as one
  text block, followed by the new user turn.  With 25 stored turns the request is the
  system instruction, turns 6 to 25 and the new user turn: 22 entries.  The window only
  shapes the request that \<open>chat\<close> sends: what it stores afterwards is the whole
  loaded log followed by the two new turns.
\<close>

theorem history_window:
  "build_messages (PList (map Message_dict ms)) msg
     = Inr (map (\<lambda>m. PDict [(str ''role'', PStr (role m)),
                            (str ''content'', PList [PDict [(str ''text'', PStr (content m))]])])
              (drop (length ms - 20) ms)
            @ [PDict [(str ''role'', PStr (str ''user'')),
                      (str ''content'', PList [PDict [(str ''text'', PStr msg)]])]])
   \<and> length (drop (length ms - 20) ms) \<le> 20
   \<and> (\<forall>i < length (drop (length ms - 20) ms).
         drop (length ms - 20) ms ! i = ms ! (length ms - 20 + i))
   \<and> (length ms = 25 \<longrightarrow>
        (\<exists>req. build_messages (PList (map Message_dict ms)) msg = Inr req
           \<and> system (converse_request cfg req) = [PDict [(str ''text'', PStr (prompt cfg))]]
           \<and> messages (converse_request cfg req) = req
           \<and> length req = 21
           \<and> (\<forall>i < 20. req ! i
                 = PDict [(str ''role'', PStr (role (ms ! (5 + i)))),
                          (str ''content'', PList [PDict [(str ''text'', PStr (content (ms ! (5 + i))))]])])
           \<and> req ! 20 = PDict [(str ''role'', PStr (str ''user'')),
                                (str ''content'', PList [PDict [(str ''text'', PStr msg)]])]
           \<and> request_entries (converse_request cfg req) = 22))
   \<and> (\<forall>resp. fst (chat cfg e w request) = Inr resp
          \<and> fst (load_conversation cfg e w (resolve_session_id e request)) = Inr (PList (map Message_dict ms))
        \<longrightarrow> bedrock_calls (snd (chat cfg e w request))
              = bedrock_calls w @
                [\<lparr>modelId = BEDROCK_MODEL_ID cfg,
                  system = [PDict [(str ''text'', PStr (prompt cfg))]],
                  messages =
                    map (\<lambda>m. PDict [(str ''role'', PStr (role m)),
                            (str ''content'', PList [PDict [(str ''text'', PStr (content m))]])])
                      (drop (length ms - 20) ms)
                    @ [PDict [(str ''role'', PStr (str ''user'')),
                              (str ''content'', PList [PDict [(str ''text'', PStr (message request))]])]],
                  maxTokens = 2000, temperature = 0.7, topP = 0.9\<rparr>]
          \<and> stored_text cfg (snd (chat cfg e w request)) (resolve_session_id e request)
              = Some (dumps (PList (map Message_dict ms @
                  [PDict [(str ''role'', PStr (str ''user'')), (str ''content'', PStr (message request)),
                          (str ''timestamp'', PStr (now_first e))],
                   PDict [(str ''role'', PStr (str ''assistant'')), (str ''content'', PStr (response resp)),
                          (str ''timestamp'', PStr (now_second e))]]))))"
proof (intro conjI allI impI)
  show "build_messages (PList (map Message_dict ms)) msg
     = Inr (map (\<lambda>m. PDict [(str ''role'', PStr (role m)),
                            (str ''content'', PList [PDict [(str ''text'', PStr (content m))]])])
              (drop (length ms - 20) ms)
            @ [PDict [(str ''role'', PStr (str ''user'')),
                      (str ''content'', PList [PDict [(str ''text'', PStr msg)]])]])"
    by (rule build_messages_explicit)
  show "length (drop (length ms - 20) ms) \<le> 20" by simp
next
  fix i assume "i < length (drop (length ms - 20) ms)"
  then show "drop (length ms - 20) ms ! i = ms ! (length ms - 20 + i)" by simp
next
  assume len: "length ms = 25"
  let ?req = "map (\<lambda>m. PDict [(str ''role'', PStr (role m)),
                            (str ''content'', PList [PDict [(str ''text'', PStr (content m))]])])
              (drop (length ms - 20) ms)
            @ [PDict [(str ''role'', PStr (str ''user'')),
                      (str ''content'', PList [PDict [(str ''text'', PStr msg)]])]]"
  have l: "length ?req = 21" using len by simp
  have h: "\<forall>i < 20. ?req ! i
                 = PDict [(str ''role'', PStr (role (ms ! (5 + i)))),
                          (str ''content'', PList [PDict [(str ''text'', PStr (content (ms ! (5 + i))))]])]"
    using len by (simp add: nth_append)
  have n: "?req ! 20 = PDict [(str ''role'', PStr (str ''user'')),
                                (str ''content'', PList [PDict [(str ''text'', PStr msg)]])]"
    using len by (simp add: nth_append)
  have s: "system (converse_request cfg ?req) = [PDict [(str ''text'', PStr (prompt cfg))]]"
    "messages (converse_request cfg ?req) = ?req"
    by (simp_all add: converse_request_def)
  have r: "request_entries (converse_request cfg ?req) = 22"
    using l by (simp add: request_entries_def converse_request_def)
  show "\<exists>req. build_messages (PList (map Message_dict ms)) msg = Inr req
           \<and> system (converse_request cfg req) = [PDict [(str ''text'', PStr (prompt cfg))]]
           \<and> messages (converse_request cfg req) = req
           \<and> length req = 21
           \<and> (\<forall>i < 20. req ! i
                 = PDict [(str ''role'', PStr (role (ms ! (5 + i)))),
                          (str ''content'', PList [PDict [(str ''text'', PStr (content (ms ! (5 + i))))]])])
           \<and> req ! 20 = PDict [(str ''role'', PStr (str ''user'')),
                                (str ''content'', PList [PDict [(str ''text'', PStr msg)]])]
           \<and> request_entries (converse_request cfg req) = 22"
    by (intro exI[of _ ?req] conjI build_messages_explicit s l h n r)
next
  fix resp
  assume a: "fst (chat cfg e w request) = Inr resp
          \<and> fst (load_conversation cfg e w (resolve_session_id e request)) = Inr (PList (map Message_dict ms))"
  then have ok: "fst (chat cfg e w request) = Inr resp"
    and before: "fst (load_conversation cfg e w (resolve_session_id e request)) = Inr (PList (map Message_dict ms))"
    by simp_all
  show "bedrock_calls (snd (chat cfg e w request))
              = bedrock_calls w @
                [\<lparr>modelId = BEDROCK_MODEL_ID cfg,
                  system = [PDict [(str ''text'', PStr (prompt cfg))]],
                  messages =
                    map (\<lambda>m. PDict [(str ''role'', PStr (role m)),
                            (str ''content'', PList [PDict [(str ''text'', PStr (content m))]])])
                      (drop (length ms - 20) ms)
                    @ [PDict [(str ''role'', PStr (str ''user'')),
                              (str ''content'', PList [PDict [(str ''text'', PStr (message request))]])]],
                  maxTokens = 2000, temperature = 0.7, topP = 0.9\<rparr>]"
    using chat_sends[OF ok before build_messages_explicit]
    by (simp add: converse_request_def)
  from chat_effect[OF ok] before
  have "stored_text cfg (snd (chat cfg e w request)) (resolve_session_id e request)
              = Some (dumps (PList (map Message_dict ms
                   @ [user_turn (message request) (now_first e),
                      assistant_turn (PStr (response resp)) (now_second e)])))"
    by auto
  then show "stored_text cfg (snd (chat cfg e w request)) (resolve_session_id e request)
              = Some (dumps (PList (map Message_dict ms @
                  [PDict [(str ''role'', PStr (str ''user'')), (str ''content'', PStr (message request)),
                          (str ''timestamp'', PStr (now_first e))],
                   PDict [(str ''role'', PStr (str ''assistant'')), (str ''content'', PStr (response resp)),
                          (str ''timestamp'', PStr (now_second e))]])))"
    unfolding user_turn_def assistant_turn_def .
qed

text \<open>
  A log of 25 numbered turns, saved, then one more chat turn on it: the request starts
  with turn 6 and ends with turn 25 and the new message; all 27 turns are stored.
\<close>

theorem history_window_witness:
  "(\<exists>req. build_messages (PList (map Message_dict (numbered_log 25))) (str ''Hi'') = Inr req
       \<and> length req = 21
       \<and> req ! 0 = PDict [(str ''role'', PStr (str ''user'')),
                          (str ''content'', PList [PDict [(str ''text'', PStr [53])]])]
       \<and> req ! 19 = PDict [(str ''role'', PStr (str ''user'')),
                           (str ''content'', PList [PDict [(str ''text'', PStr [72])]])]
       \<and> req ! 20 = PDict [(str ''role'', PStr (str ''user'')),
                           (str ''content'', PList [PDict [(str ''text'', PStr (str ''Hi''))]])]
       \<and> system (converse_request local_config req)
            = [PDict [(str ''text'', PStr (str ''You are a digital twin.''))]]
       \<and> request_entries (converse_request local_config req) = 22
       \<and> bedrock_calls
            (snd (chat local_config
               (replying_env (str ''Hello'') (str ''2024-11-03T01:59:58.120000'') (str ''2024-11-03T01:59:58.120011''))
               (snd (save_conversation local_config
                      (replying_env (str ''Hello'') (str ''2024-11-03T01:59:58.120000'') (str ''2024-11-03T01:59:58.120011''))
                      empty_world (str ''s1'') (PList (map Message_dict (numbered_log 25)))))
               hello))
          = [\<lparr>modelId = str ''amazon.nova-lite-v1:0'',
              system = [PDict [(str ''text'', PStr (str ''You are a digital twin.''))]],
              messages = req, maxTokens = 2000, temperature = 0.7, topP = 0.9\<rparr>])
   \<and> drop (length (numbered_log 25) - 20) (numbered_log 25) ! 0 = numbered_log 25 ! 5
   \<and> stored_text local_config
        (snd (chat local_config
               (replying_env (str ''Hello'') (str ''2024-11-03T01:59:58.120000'') (str ''2024-11-03T01:59:58.120011''))
               (snd (save_conversation local_config
                      (replying_env (str ''Hello'') (str ''2024-11-03T01:59:58.120000'') (str ''2024-11-03T01:59:58.120011''))
                      empty_world (str ''s1'') (PList (map Message_dict (numbered_log 25)))))
               hello))
        (str ''s1'')
      = Some (dumps (PList (map Message_dict (numbered_log 25) @
           [PDict [(str ''role'', PStr (str ''user'')), (str ''content'', PStr (str ''Hi'')),
                   (str ''timestamp'', PStr (str ''2024-11-03T01:59:58.120000''))],
            PDict [(str ''role'', PStr (str ''assistant'')), (str ''content'', PStr (str ''Hello'')),
                   (str ''timestamp'', PStr (str ''2024-11-03T01:59:58.120011''))]])))"
proof -
  let ?e = "replying_env (str ''Hello'') (str ''2024-11-03T01:59:58.120000'') (str ''2024-11-03T01:59:58.120011'')"
  let ?w = "snd (save_conversation local_config ?e empty_world (str ''s1'')
                      (PList (map Message_dict (numbered_log 25))))"
  let ?req = "map (\<lambda>m. PDict [(str ''role'', PStr (role m)),
                            (str ''content'', PList [PDict [(str ''text'', PStr (content m))]])])
                (drop (length (numbered_log 25) - 20) (numbered_log 25))
              @ [PDict [(str ''role'', PStr (str ''user'')),
                        (str ''content'', PList [PDict [(str ''text'', PStr (str ''Hi''))]])]]"
  note T = history_window[where ms = "numbered_log 25" and msg = "str ''Hi''" and cfg = local_config
      and e = ?e and w = ?w and request = hello]
  have before: "fst (load_conversation local_config ?e ?w (resolve_session_id ?e hello))
                = Inr (PList (map Message_dict (numbered_log 25)))"
    unfolding resolve_hello
    by (rule save_then_load[OF unicode_numbered_log save_replying]) (simp add: s3_config_sel)
  have ok: "fst (chat local_config ?e ?w hello)
            = Inr \<lparr>response = str ''Hello'', session_id = resolve_session_id ?e hello\<rparr>"
    by (rule chat_replying[OF before build_messages_Messages])
  have m: "message hello = str ''Hi''" by (simp add: hello_def)
  have w0: "bedrock_calls ?w = []"
    by (simp add: save_bedrock_calls empty_world_def)
  have cfgs: "BEDROCK_MODEL_ID local_config = str ''amazon.nova-lite-v1:0''"
    "prompt local_config = str ''You are a digital twin.''"
    by (simp_all add: local_config_def)
  have b: "build_messages (PList (map Message_dict (numbered_log 25))) (str ''Hi'') = Inr ?req"
    by (rule conjunct1[OF T])
  from conjunct1[OF conjunct2[OF conjunct2[OF conjunct2[OF T]]]]
  obtain req where r: "build_messages (PList (map Message_dict (numbered_log 25))) (str ''Hi'') = Inr req"
    and r1: "system (converse_request local_config req) = [PDict [(str ''text'', PStr (prompt local_config))]]"
    and r2: "length req = 21"
    and r3: "\<forall>i < 20. req ! i
                 = PDict [(str ''role'', PStr (role (numbered_log 25 ! (5 + i)))),
                          (str ''content'', PList [PDict [(str ''text'', PStr (content (numbered_log 25 ! (5 + i))))]])]"
    and r4: "req ! 20 = PDict [(str ''role'', PStr (str ''user'')),
                                (str ''content'', PList [PDict [(str ''text'', PStr (str ''Hi''))]])]"
    and r5: "request_entries (converse_request local_config req) = 22"
    by (auto simp: length_numbered_log)
  have req: "req = ?req" using r b by simp
  have h0: "req ! 0 = PDict [(str ''role'', PStr (str ''user'')),
                          (str ''content'', PList [PDict [(str ''text'', PStr [53])]])]"
    using r3[rule_format, of 0] by (simp add: numbered_log_nth)
  have h19: "req ! 19 = PDict [(str ''role'', PStr (str ''user'')),
                          (str ''content'', PList [PDict [(str ''text'', PStr [72])]])]"
    using r3[rule_format, of 19] by (simp add: numbered_log_nth)
  note A = conjunct2[OF conjunct2[OF conjunct2[OF conjunct2[OF T]]], rule_format, OF conjI[OF ok before]]
  have calls: "bedrock_calls (snd (chat local_config ?e ?w hello))
          = [\<lparr>modelId = str ''amazon.nova-lite-v1:0'',
              system = [PDict [(str ''text'', PStr (str ''You are a digital twin.''))]],
              messages = req, maxTokens = 2000, temperature = 0.7, topP = 0.9\<rparr>]"
    using conjunct1[OF A] unfolding req by (simp only: w0 cfgs m append_Nil)
  have d: "drop (length (numbered_log 25) - 20) (numbered_log 25) ! 0 = numbered_log 25 ! 5"
    using conjunct1[OF conjunct2[OF conjunct2[OF T]], rule_format, of 0]
    by (simp add: length_numbered_log)
  have st: "stored_text local_config (snd (chat local_config ?e ?w hello)) (str ''s1'')
      = Some (dumps (PList (map Message_dict (numbered_log 25) @
           [PDict [(str ''role'', PStr (str ''user'')), (str ''content'', PStr (str ''Hi'')),
                   (str ''timestamp'', PStr (str ''2024-11-03T01:59:58.120000''))],
            PDict [(str ''role'', PStr (str ''assistant'')), (str ''content'', PStr (str ''Hello'')),
                   (str ''timestamp'', PStr (str ''2024-11-03T01:59:58.120011''))]])))"
    using conjunct2[OF A] by (simp only: resolve_hello m replying_env_sel ChatResponse.simps)
  have ex: "\<exists>req. build_messages (PList (map Message_dict (numbered_log 25))) (str ''Hi'') = Inr req
       \<and> length req = 21
       \<and> req ! 0 = PDict [(str ''role'', PStr (str ''user'')),
                          (str ''content'', PList [PDict [(str ''text'', PStr [53])]])]
       \<and> req ! 19 = PDict [(str ''role'', PStr (str ''user'')),
                           (str ''content'', PList [PDict [(str ''text'', PStr [72])]])]
       \<and> req ! 20 = PDict [(str ''role'', PStr (str ''user'')),
                           (str ''content'', PList [PDict [(str ''text'', PStr (str ''Hi''))]])]
       \<and> system (converse_request local_config req)
            = [PDict [(str ''text'', PStr (str ''You are a digital twin.''))]]
       \<and> request_entries (converse_request local_config req) = 22
       \<and> bedrock_calls (snd (chat local_config ?e ?w hello))
          = [\<lparr>modelId = str ''amazon.nova-lite-v1:0'',
              system = [PDict [(str ''text'', PStr (str ''You are a digital twin.''))]],
              messages = req, maxTokens = 2000, temperature = 0.7, topP = 0.9\<rparr>]"
    using r r2 h0 h19 r4 r1[unfolded cfgs] r5 calls by (intro exI[of _ req] conjI)
  from ex d st show ?thesis by (intro conjI)
qed

text \<open>
  Claim C3.  Loading a session right after saving a sequence of turns returns the same
  turns in the same order, with role, content and timestamp unchanged, in the local and
  in the remote variant alike.  The texts are Unicode: sequences of scalar values, of
  any plane (a string that holds a surrogate code point is no Unicode text and has no
  encoding in bytes).  In the remote variant S3 has to answer the read.
\<close>

theorem load_after_save:
  assumes "list_all unicode_message ms"
    and "fst (save_conversation cfg e w sid (PList (map Message_dict ms))) = Inr ()"
    and "USE_S3 cfg \<longrightarrow> s3_get_fault e (S3_BUCKET cfg) (get_memory_path sid) = None"
  shows "fst (load_conversation cfg e (snd (save_conversation cfg e w sid (PList (map Message_dict ms)))) sid)
         = Inr (PList (map Message_dict ms))"
  using assms by (rule save_then_load)

text \<open>
  Both variants on a log whose first content has an accented letter, a code point
  beyond the basic plane, a quote, a backslash, a line feed and a control character,
  and whose second content is empty.
\<close>

theorem load_after_save_witness:
  "fst (load_conversation local_config (replying_env [] [] [])
         (snd (save_conversation local_config (replying_env [] [] []) empty_world (str ''s1'')
                 (PList (map Message_dict sample_log)))) (str ''s1''))
     = Inr (PList (map Message_dict sample_log))
   \<and> fst (load_conversation s3_config (replying_env [] [] [])
         (snd (save_conversation s3_config (replying_env [] [] []) empty_world (str ''s1'')
                 (PList (map Message_dict sample_log)))) (str ''s1''))
     = Inr (PList (map Message_dict sample_log))"
  using load_after_save[where ms = sample_log and cfg = local_config and e = "replying_env [] [] []"
      and w = empty_world and sid = "str ''s1''"]
    load_after_save[where ms = sample_log and cfg = s3_config and e = "replying_env [] [] []"
      and w = empty_world and sid = "str ''s1''"]
  by (simp add: unicode_sample_log save_replying replying_env_sel)

text \<open>
  Claim C5, as stated: after a successful turn every timestamp in the log is
  non-decreasing relative to the turn before it.  The stamps are two readings of
  \<open>datetime.now()\<close>, the local wall clock, and nothing compares them with the
  stamps already in the log.  Here local time is set back from 02:00 to 01:00 between
  two turns of one session, as at the end of daylight saving time: the second turn
  succeeds and its user turn is stamped earlier than the assistant turn before it.
\<close>

theorem clock_set_back_breaks_order:
  "fst (chat local_config after_clock_change
          (snd (chat local_config before_clock_change empty_world hello)) hello)
     = Inr \<lparr>response = str ''Hello again'', session_id = str ''s1''\<rparr>
   \<and> fst (load_conversation local_config after_clock_change
           (snd (chat local_config after_clock_change
                   (snd (chat local_config before_clock_change empty_world hello)) hello))
           (str ''s1''))
     = Inr (PList [user_turn (str ''Hi'') (str ''2024-11-03T01:59:58.120000''),
                   assistant_turn (PStr (str ''Hello'')) (str ''2024-11-03T01:59:58.120011''),
                   user_turn (str ''Hi'') (str ''2024-11-03T01:00:05.300000''),
                   assistant_turn (PStr (str ''Hello again'')) (str ''2024-11-03T01:00:05.300009'')])
   \<and> \<not> nondecreasing (log_timestamps
           [user_turn (str ''Hi'') (str ''2024-11-03T01:59:58.120000''),
            assistant_turn (PStr (str ''Hello'')) (str ''2024-11-03T01:59:58.120011''),
            user_turn (str ''Hi'') (str ''2024-11-03T01:00:05.300000''),
            assistant_turn (PStr (str ''Hello again'')) (str ''2024-11-03T01:00:05.300009'')])"
proof (intro conjI)
  let ?t1 = "str ''2024-11-03T01:59:58.120000''" and ?t2 = "str ''2024-11-03T01:59:58.120011''"
  let ?t3 = "str ''2024-11-03T01:00:05.300000''" and ?t4 = "str ''2024-11-03T01:00:05.300009''"
  let ?w = "snd (chat local_config before_clock_change empty_world hello)"
  let ?ms = "[\<lparr>role = str ''user'', content = str ''Hi'', timestamp = ?t1\<rparr>,
              \<lparr>role = str ''assistant'', content = str ''Hello'', timestamp = ?t2\<rparr>]"
  have u: "unicode_text (str ''Hi'')" "unicode_text (str ''Hello'')" "unicode_text (str ''Hello again'')"
    "unicode_text ?t1" "unicode_text ?t2" "unicode_text ?t3" "unicode_text ?t4"
    by (simp_all add: unicode_text_def str_simps)
  have ums: "list_all unicode_message ?ms"
    using u unicode_roles by (simp add: unicode_message_def)
  have "fst (load_conversation local_config before_clock_change ?w (str ''s1''))
        = Inr (PList [user_turn (str ''Hi'') ?t1, assistant_turn (PStr (str ''Hello'')) ?t2])"
    unfolding before_clock_change_def hello_def by (rule first_turn_loaded[OF u(1,2,4,5)])
  then have before: "fst (load_conversation local_config after_clock_change ?w
                            (resolve_session_id after_clock_change hello))
        = Inr (PList (map Message_dict ?ms))"
    using load_local_env[OF s3_config_sel(2), of before_clock_change ?w "str ''s1''" after_clock_change]
    by (simp add: resolve_hello turns_as_Messages)
  have ok: "fst (chat local_config after_clock_change ?w hello)
          = Inr \<lparr>response = str ''Hello again'', session_id = resolve_session_id after_clock_change hello\<rparr>"
    using before unfolding after_clock_change_def
    by (rule chat_replying[OF _ build_messages_Messages])
  then show "fst (chat local_config after_clock_change ?w hello)
     = Inr \<lparr>response = str ''Hello again'', session_id = str ''s1''\<rparr>"
    by (simp add: resolve_hello)
  have "fst (load_conversation local_config after_clock_change
               (snd (chat local_config after_clock_change ?w hello))
               (resolve_session_id after_clock_change hello))
        = Inr (PList (map Message_dict ?ms
              @ [user_turn (message hello) (now_first after_clock_change),
                 assistant_turn (PStr (response \<lparr>response = str ''Hello again'',
                      session_id = resolve_session_id after_clock_change hello\<rparr>))
                   (now_second after_clock_change)]))"
    by (rule chat_then_load[OF ok before ums])
       (simp_all add: u hello_def after_clock_change_def replying_env_sel s3_config_sel)
  moreover have "message hello = str ''Hi''" by (simp add: hello_def)
  moreover have "now_first after_clock_change = ?t3" "now_second after_clock_change = ?t4"
    by (simp_all add: after_clock_change_def replying_env_sel)
  ultimately show "fst (load_conversation local_config after_clock_change
           (snd (chat local_config after_clock_change ?w hello)) (str ''s1''))
     = Inr (PList [user_turn (str ''Hi'') ?t1, assistant_turn (PStr (str ''Hello'')) ?t2,
                   user_turn (str ''Hi'') ?t3, assistant_turn (PStr (str ''Hello again'')) ?t4])"
    by (simp add: resolve_hello turns_as_Messages)
  have "log_timestamps ([user_turn (str ''Hi'') ?t1, assistant_turn (PStr (str ''Hello'')) ?t2]
          @ [user_turn (str ''Hi'') ?t3, assistant_turn (PStr (str ''Hello again'')) ?t4])
        = [?t1, ?t2, ?t3, ?t4]"
    by (simp add: log_timestamps_turns)
  then show "\<not> nondecreasing (log_timestamps
           [user_turn (str ''Hi'') ?t1, assistant_turn (PStr (str ''Hello'')) ?t2,
            user_turn (str ''Hi'') ?t3, assistant_turn (PStr (str ''Hello again'')) ?t4])"
    by (simp add: str_simps)
qed

text \<open>
  Claim C5, amended: every successful chat turn appends exactly two turns to the
  session's persisted log, first the user turn with the request message, then the
  assistant turn whose content is the text of the first content block of the model's
  answer to the request built from the loaded log and the message, stamped with the first
  and the second reading of the clock; the timestamps of the resulting log are
  non-decreasing exactly when those of the loaded log followed by the first reading are,
  and the second reading is not before the first.
\<close>

theorem chat_appends_two_stamped_turns:
  assumes "fst (chat cfg e w request) = Inr resp"
  shows "\<exists>turns ms r out m c block.
       fst (load_conversation cfg e w (ChatResponse.session_id resp)) = Inr (PList turns)
     \<and> build_messages (PList turns) (message request) = Inr ms
     \<and> converse e (converse_request cfg ms) = Inr r
     \<and> getitem_key r (str ''output'') = Inr out \<and> getitem_key out (str ''message'') = Inr m
     \<and> getitem_key m (str ''content'') = Inr c \<and> getitem_0 c = Inr block
     \<and> getitem_key block (str ''text'') = Inr (PStr (response resp))
     \<and> stored_text cfg (snd (chat cfg e w request)) (ChatResponse.session_id resp)
         = Some (dumps (PList (turns @
             [PDict [(str ''role'', PStr (str ''user'')), (str ''content'', PStr (message request)),
                     (str ''timestamp'', PStr (now_first e))],
              PDict [(str ''role'', PStr (str ''assistant'')), (str ''content'', PStr (response resp)),
                     (str ''timestamp'', PStr (now_second e))]])))
     \<and> log_timestamps (turns @
             [PDict [(str ''role'', PStr (str ''user'')), (str ''content'', PStr (message request)),
                     (str ''timestamp'', PStr (now_first e))],
              PDict [(str ''role'', PStr (str ''assistant'')), (str ''content'', PStr (response resp)),
                     (str ''timestamp'', PStr (now_second e))]])
         = log_timestamps turns @ [now_first e, now_second e]
     \<and> nondecreasing (log_timestamps (turns @
             [PDict [(str ''role'', PStr (str ''user'')), (str ''content'', PStr (message request)),
                     (str ''timestamp'', PStr (now_first e))],
              PDict [(str ''role'', PStr (str ''assistant'')), (str ''content'', PStr (response resp)),
                     (str ''timestamp'', PStr (now_second e))]]))
         = (nondecreasing (log_timestamps turns @ [now_first e]) \<and> str_le (now_first e) (now_second e))"
proof -
  from chat_reply[OF assms] obtain turns ms r where
    l: "fst (load_conversation cfg e w (resolve_session_id e request)) = Inr (PList turns)"
    and b: "build_messages (PList turns) (message request) = Inr ms"
    and c: "converse e (converse_request cfg ms) = Inr r"
    and t: "reply_text r = Inr (PStr (response resp))"
    by (elim exE conjE)
  from reply_text_path[OF t] obtain out m c' block where
    p: "getitem_key r (str ''output'') = Inr out" "getitem_key out (str ''message'') = Inr m"
      "getitem_key m (str ''content'') = Inr c'" "getitem_0 c' = Inr block"
      "getitem_key block (str ''text'') = Inr (PStr (response resp))"
    by (elim exE conjE)
  from chat_effect[OF assms] obtain turns' where
    l': "fst (load_conversation cfg e w (resolve_session_id e request)) = Inr (PList turns')"
    and s': "stored_text cfg (snd (chat cfg e w request)) (resolve_session_id e request)
         = Some (dumps (PList (turns' @ [user_turn (message request) (now_first e),
                                        assistant_turn (PStr (response resp)) (now_second e)])))"
    and i: "ChatResponse.session_id resp = resolve_session_id e request"
    by (elim exE conjE)
  have tt: "turns' = turns" using l l' by simp
  have s: "stored_text cfg (snd (chat cfg e w request)) (resolve_session_id e request)
         = Some (dumps (PList (turns @
             [PDict [(str ''role'', PStr (str ''user'')), (str ''content'', PStr (message request)),
                     (str ''timestamp'', PStr (now_first e))],
              PDict [(str ''role'', PStr (str ''assistant'')), (str ''content'', PStr (response resp)),
                     (str ''timestamp'', PStr (now_second e))]])))"
    using s' unfolding tt user_turn_def assistant_turn_def .
  have n: "nondecreasing (log_timestamps (turns @
             [PDict [(str ''role'', PStr (str ''user'')), (str ''content'', PStr (message request)),
                     (str ''timestamp'', PStr (now_first e))],
              PDict [(str ''role'', PStr (str ''assistant'')), (str ''content'', PStr (response resp)),
                     (str ''timestamp'', PStr (now_second e))]]))
         = (nondecreasing (log_timestamps turns @ [now_first e]) \<and> str_le (now_first e) (now_second e))"
    by (simp only: log_timestamps_explicit nondecreasing_snoc_iff)
  show ?thesis
    unfolding i
    by (intro exI[of _ turns] exI[of _ ms] exI[of _ r] exI[of _ out] exI[of _ m] exI[of _ c']
          exI[of _ block] conjI l b c p s log_timestamps_explicit n)
qed

text \<open>
  The second turn of a session, one second after the first: four turns are stored, the
  last holding the model's reply, and their stamps are in order.
\<close>

theorem chat_appends_two_stamped_turns_witness:
  "stored_text local_config
     (snd (chat local_config a_second_later
             (snd (chat local_config before_clock_change empty_world hello)) hello))
     (str ''s1'')
   = Some (dumps (PList
       [PDict [(str ''role'', PStr (str ''user'')), (str ''content'', PStr (str ''Hi'')),
               (str ''timestamp'', PStr (str ''2024-11-03T01:59:58.120000''))],
        PDict [(str ''role'', PStr (str ''assistant'')), (str ''content'', PStr (str ''Hello'')),
               (str ''timestamp'', PStr (str ''2024-11-03T01:59:58.120011''))],
        PDict [(str ''role'', PStr (str ''user'')), (str ''content'', PStr (str ''Hi'')),
               (str ''timestamp'', PStr (str ''2024-11-03T01:59:59.300000''))],
        PDict [(str ''role'', PStr (str ''assistant'')), (str ''content'', PStr (str ''Hello again'')),
               (str ''timestamp'', PStr (str ''2024-11-03T01:59:59.300009''))]]))
   \<and> nondecreasing (log_timestamps
       [PDict [(str ''role'', PStr (str ''user'')), (str ''content'', PStr (str ''Hi'')),
               (str ''timestamp'', PStr (str ''2024-11-03T01:59:58.120000''))],
        PDict [(str ''role'', PStr (str ''assistant'')), (str ''content'', PStr (str ''Hello'')),
               (str ''timestamp'', PStr (str ''2024-11-03T01:59:58.120011''))],
        PDict [(str ''role'', PStr (str ''user'')), (str ''content'', PStr (str ''Hi'')),
               (str ''timestamp'', PStr (str ''2024-11-03T01:59:59.300000''))],
        PDict [(str ''role'', PStr (str ''assistant'')), (str ''content'', PStr (str ''Hello again'')),
               (str ''timestamp'', PStr (str ''2024-11-03T01:59:59.300009''))]])
   \<and> (\<exists>r. converse a_second_later (converse_request local_config
          [PDict [(str ''role'', PStr (str ''user'')),
                  (str ''content'', PList [PDict [(str ''text'', PStr (str ''Hi''))]])],
           PDict [(str ''role'', PStr (str ''assistant'')),
                  (str ''content'', PList [PDict [(str ''text'', PStr (str ''Hello''))]])],
           PDict [(str ''role'', PStr (str ''user'')),
                  (str ''content'', PList [PDict [(str ''text'', PStr (str ''Hi''))]])]]) = Inr r
        \<and> reply_text r = Inr (PStr (str ''Hello again'')))"
proof -
  let ?t1 = "str ''2024-11-03T01:59:58.120000''" and ?t2 = "str ''2024-11-03T01:59:58.120011''"
  let ?t3 = "str ''2024-11-03T01:59:59.300000''" and ?t4 = "str ''2024-11-03T01:59:59.300009''"
  let ?w = "snd (chat local_config before_clock_change empty_world hello)"
  let ?ms = "[\<lparr>role = str ''user'', content = str ''Hi'', timestamp = ?t1\<rparr>,
              \<lparr>role = str ''assistant'', content = str ''Hello'', timestamp = ?t2\<rparr>]"
  let ?resp = "\<lparr>response = str ''Hello again'', session_id = str ''s1''\<rparr>"
  have u: "unicode_text (str ''Hi'')" "unicode_text (str ''Hello'')" "unicode_text ?t1" "unicode_text ?t2"
    by (simp_all add: unicode_text_def str_simps)
  have "fst (load_conversation local_config before_clock_change ?w (str ''s1''))
        = Inr (PList [user_turn (str ''Hi'') ?t1, assistant_turn (PStr (str ''Hello'')) ?t2])"
    unfolding before_clock_change_def hello_def by (rule first_turn_loaded[OF u])
  then have before: "fst (load_conversation local_config a_second_later ?w
                            (resolve_session_id a_second_later hello))
        = Inr (PList (map Message_dict ?ms))"
    using load_local_env[OF s3_config_sel(2), of before_clock_change ?w "str ''s1''" a_second_later]
    by (simp add: resolve_hello turns_as_Messages)
  have "fst (chat local_config a_second_later ?w hello)
          = Inr \<lparr>response = str ''Hello again'', session_id = resolve_session_id a_second_later hello\<rparr>"
    using before unfolding a_second_later_def
    by (rule chat_replying[OF _ build_messages_Messages])
  then have ok: "fst (chat local_config a_second_later ?w hello) = Inr ?resp"
    by (simp add: resolve_hello)
  from chat_appends_two_stamped_turns[OF ok] obtain turns ms r out m c block where
    l: "fst (load_conversation local_config a_second_later ?w (ChatResponse.session_id ?resp))
          = Inr (PList turns)"
    and b: "build_messages (PList turns) (message hello) = Inr ms"
    and c: "converse a_second_later (converse_request local_config ms) = Inr r"
    and p: "getitem_key r (str ''output'') = Inr out" "getitem_key out (str ''message'') = Inr m"
      "getitem_key m (str ''content'') = Inr c" "getitem_0 c = Inr block"
      "getitem_key block (str ''text'') = Inr (PStr (response ?resp))"
    and s: "stored_text local_config (snd (chat local_config a_second_later ?w hello))
              (ChatResponse.session_id ?resp)
         = Some (dumps (PList (turns @
             [PDict [(str ''role'', PStr (str ''user'')), (str ''content'', PStr (message hello)),
                     (str ''timestamp'', PStr (now_first a_second_later))],
              PDict [(str ''role'', PStr (str ''assistant'')), (str ''content'', PStr (response ?resp)),
                     (str ''timestamp'', PStr (now_second a_second_later))]])))"
    and n: "nondecreasing (log_timestamps (turns @
             [PDict [(str ''role'', PStr (str ''user'')), (str ''content'', PStr (message hello)),
                     (str ''timestamp'', PStr (now_first a_second_later))],
              PDict [(str ''role'', PStr (str ''assistant'')), (str ''content'', PStr (response ?resp)),
                     (str ''timestamp'', PStr (now_second a_second_later))]]))
         = (nondecreasing (log_timestamps turns @ [now_first a_second_later])
            \<and> str_le (now_first a_second_later) (now_second a_second_later))"
    by (elim exE conjE)
  have mh: "message hello = str ''Hi''" by (simp add: hello_def)
  have t: "turns = [PDict [(str ''role'', PStr (str ''user'')), (str ''content'', PStr (str ''Hi'')),
                          (str ''timestamp'', PStr ?t1)],
                    PDict [(str ''role'', PStr (str ''assistant'')), (str ''content'', PStr (str ''Hello'')),
                          (str ''timestamp'', PStr ?t2)]]"
    using l before by (simp add: resolve_hello Message_dict_explicit)
  have ms: "ms = [PDict [(str ''role'', PStr (str ''user'')),
                  (str ''content'', PList [PDict [(str ''text'', PStr (str ''Hi''))]])],
           PDict [(str ''role'', PStr (str ''assistant'')),
                  (str ''content'', PList [PDict [(str ''text'', PStr (str ''Hello''))]])],
           PDict [(str ''role'', PStr (str ''user'')),
                  (str ''content'', PList [PDict [(str ''text'', PStr (str ''Hi''))]])]]"
    using b unfolding t mh
    by (simp add: build_messages_def then_do_def nova_message_def keys_distinct)
  have 1: "stored_text local_config (snd (chat local_config a_second_later ?w hello)) (str ''s1'')
   = Some (dumps (PList
       [PDict [(str ''role'', PStr (str ''user'')), (str ''content'', PStr (str ''Hi'')),
               (str ''timestamp'', PStr ?t1)],
        PDict [(str ''role'', PStr (str ''assistant'')), (str ''content'', PStr (str ''Hello'')),
               (str ''timestamp'', PStr ?t2)],
        PDict [(str ''role'', PStr (str ''user'')), (str ''content'', PStr (str ''Hi'')),
               (str ''timestamp'', PStr ?t3)],
        PDict [(str ''role'', PStr (str ''assistant'')), (str ''content'', PStr (str ''Hello again'')),
               (str ''timestamp'', PStr ?t4)]]))"
    using s unfolding t mh a_second_later_sel by simp
  have lt: "log_timestamps turns = [?t1, ?t2]"
    unfolding t using log_timestamps_explicit[of "[]"] by (simp add: log_timestamps_def)
  have le: "nondecreasing ([?t1, ?t2] @ [?t3]) \<and> str_le ?t3 ?t4"
    by (simp add: str_simps)
  have 2: "nondecreasing (log_timestamps
       [PDict [(str ''role'', PStr (str ''user'')), (str ''content'', PStr (str ''Hi'')),
               (str ''timestamp'', PStr ?t1)],
        PDict [(str ''role'', PStr (str ''assistant'')), (str ''content'', PStr (str ''Hello'')),
               (str ''timestamp'', PStr ?t2)],
        PDict [(str ''role'', PStr (str ''user'')), (str ''content'', PStr (str ''Hi'')),
               (str ''timestamp'', PStr ?t3)],
        PDict [(str ''role'', PStr (str ''assistant'')), (str ''content'', PStr (str ''Hello again'')),
               (str ''timestamp'', PStr ?t4)]])"
    using n le unfolding lt a_second_later_sel mh unfolding t by simp
  have rt: "reply_text r = Inr (PStr (str ''Hello again''))"
    using p by (simp add: reply_text_def then_do_def)
  have 3: "\<exists>r. converse a_second_later (converse_request local_config
          [PDict [(str ''role'', PStr (str ''user'')),
                  (str ''content'', PList [PDict [(str ''text'', PStr (str ''Hi''))]])],
           PDict [(str ''role'', PStr (str ''assistant'')),
                  (str ''content'', PList [PDict [(str ''text'', PStr (str ''Hello''))]])],
           PDict [(str ''role'', PStr (str ''user'')),
                  (str ''content'', PList [PDict [(str ''text'', PStr (str ''Hi''))]])]]) = Inr r
        \<and> reply_text r = Inr (PStr (str ''Hello again''))"
    using c rt unfolding ms by (intro exI[of _ r] conjI)
  from 1 2 3 show ?thesis by (intro conjI)
qed

text \<open>
  Claim C7, as stated: the request requires a non-empty message, so that the content of
  every user turn in a persisted log is non-empty.  \<open>ChatRequest.message\<close> is a
  \<open>str\<close> with no constraint on its length and \<open>chat\<close> does not look at it: the empty
  message is sent to the model whatever the model then does with it (first a service
  that refuses the blank text, the request having been sent), and when the model
  answers, the empty message is stored as a user turn.
\<close>

theorem empty_message_is_accepted:
  "fst (chat local_config (failing_env blank_rejected) empty_world \<lparr>message = [], session_id = Some (str ''s1'')\<rparr>)
     = Inl (HTTPException 500 (str ''The text field is blank''))
   \<and> bedrock_calls (snd (chat local_config (failing_env blank_rejected) empty_world
                           \<lparr>message = [], session_id = Some (str ''s1'')\<rparr>))
     = [converse_request local_config [nova_message (PStr (str ''user'')) (PStr [])]]
   \<and> fst (chat local_config
         (replying_env (str ''Hello'') (str ''2024-11-03T01:00:00'') (str ''2024-11-03T01:00:01''))
         empty_world \<lparr>message = [], session_id = Some (str ''s1'')\<rparr>)
     = Inr \<lparr>response = str ''Hello'', session_id = str ''s1''\<rparr>
   \<and> fst (load_conversation local_config
           (replying_env (str ''Hello'') (str ''2024-11-03T01:00:00'') (str ''2024-11-03T01:00:01''))
           (snd (chat local_config
                   (replying_env (str ''Hello'') (str ''2024-11-03T01:00:00'') (str ''2024-11-03T01:00:01''))
                   empty_world \<lparr>message = [], session_id = Some (str ''s1'')\<rparr>))
           (str ''s1''))
     = Inr (PList [user_turn [] (str ''2024-11-03T01:00:00''),
                   assistant_turn (PStr (str ''Hello'')) (str ''2024-11-03T01:00:01'')])
   \<and> \<not> list_all user_content_nonempty
           [user_turn [] (str ''2024-11-03T01:00:00''),
            assistant_turn (PStr (str ''Hello'')) (str ''2024-11-03T01:00:01'')]"
proof (intro conjI)
  let ?e = "replying_env (str ''Hello'') (str ''2024-11-03T01:00:00'') (str ''2024-11-03T01:00:01'')"
  let ?rq = "\<lparr>message = [], session_id = Some (str ''s1'')\<rparr>"
  show "fst (chat local_config (failing_env blank_rejected) empty_world ?rq)
     = Inl (HTTPException 500 (str ''The text field is blank''))"
    by (simp add: chat_def load_conversation_def local_config_def empty_world_def os_makedirs_def Let_def
      call_bedrock_def build_messages_def then_do_def failing_env_def replying_env_def blank_rejected_def)
  show "bedrock_calls (snd (chat local_config (failing_env blank_rejected) empty_world ?rq))
     = [converse_request local_config [nova_message (PStr (str ''user'')) (PStr [])]]"
    by (simp add: chat_def load_conversation_def local_config_def empty_world_def os_makedirs_def Let_def
      call_bedrock_def build_messages_def then_do_def failing_env_def replying_env_def blank_rejected_def)
  show "fst (chat local_config ?e empty_world ?rq) = Inr \<lparr>response = str ''Hello'', session_id = str ''s1''\<rparr>"
    using chat_local_first_turn_any[of "str ''Hello''" "str ''2024-11-03T01:00:00''"
        "str ''2024-11-03T01:00:01''" "[]" "Some (str ''s1'')"]
    by (simp add: resolve_session_id_def str_simps)
  have u: "unicode_text []" "unicode_text (str ''Hello'')"
    "unicode_text (str ''2024-11-03T01:00:00'')" "unicode_text (str ''2024-11-03T01:00:01'')"
    by (simp_all add: unicode_text_def str_simps)
  show "fst (load_conversation local_config ?e (snd (chat local_config ?e empty_world ?rq)) (str ''s1''))
     = Inr (PList [user_turn [] (str ''2024-11-03T01:00:00''),
                   assistant_turn (PStr (str ''Hello'')) (str ''2024-11-03T01:00:01'')])"
    by (rule first_turn_loaded[OF u])
  show "\<not> list_all user_content_nonempty
           [user_turn [] (str ''2024-11-03T01:00:00''),
            assistant_turn (PStr (str ''Hello'')) (str ''2024-11-03T01:00:01'')]"
    by (simp add: user_content_nonempty_user_turn)
qed

text \<open>
  Claim C7, amended: the request requires a message text, which may be empty; the user
  turn appended by a successful chat has the request message as its content, so that
  it is non-empty exactly when the message is; the model reply, an empty one included,
  is stored and returned as it is.
\<close>

theorem user_turn_holds_message:
  assumes "fst (chat cfg e w request) = Inr resp"
  shows "\<exists>turns u a.
       fst (load_conversation cfg e w (ChatResponse.session_id resp)) = Inr (PList turns)
     \<and> stored_text cfg (snd (chat cfg e w request)) (ChatResponse.session_id resp)
         = Some (dumps (PList (turns @ [u, a])))
     \<and> getitem_key u (str ''role'') = Inr (PStr (str ''user''))
     \<and> getitem_key u (str ''content'') = Inr (PStr (message request))
     \<and> user_content_nonempty u = (message request \<noteq> [])
     \<and> getitem_key a (str ''role'') = Inr (PStr (str ''assistant''))
     \<and> getitem_key a (str ''content'') = Inr (PStr (response resp))"
proof -
  from chat_effect[OF assms] obtain turns where
    l: "fst (load_conversation cfg e w (resolve_session_id e request)) = Inr (PList turns)"
    and s: "stored_text cfg (snd (chat cfg e w request)) (resolve_session_id e request)
         = Some (dumps (PList (turns @ [user_turn (message request) (now_first e),
                                        assistant_turn (PStr (response resp)) (now_second e)])))"
    and i: "ChatResponse.session_id resp = resolve_session_id e request"
    by (elim exE conjE)
  show ?thesis
    unfolding i
    by (intro exI[of _ turns] exI[of _ "user_turn (message request) (now_first e)"]
          exI[of _ "assistant_turn (PStr (response resp)) (now_second e)"] conjI
          l s user_turn_items user_content_nonempty_user_turn)
qed

text \<open>An empty message answered by an empty reply: both are stored.\<close>

theorem user_turn_holds_message_witness:
  "\<exists>turns u a.
       fst (load_conversation local_config (replying_env [] [] []) empty_world (str ''s1'')) = Inr (PList turns)
     \<and> stored_text local_config
          (snd (chat local_config (replying_env [] [] []) empty_world
                  \<lparr>message = [], session_id = Some (str ''s1'')\<rparr>)) (str ''s1'')
         = Some (dumps (PList (turns @ [u, a])))
     \<and> getitem_key u (str ''role'') = Inr (PStr (str ''user''))
     \<and> getitem_key u (str ''content'') = Inr (PStr [])
     \<and> user_content_nonempty u = False
     \<and> getitem_key a (str ''role'') = Inr (PStr (str ''assistant''))
     \<and> getitem_key a (str ''content'') = Inr (PStr [])"
proof -
  let ?e = "replying_env [] [] []"
  let ?rq = "\<lparr>message = [], session_id = Some (str ''s1'')\<rparr>"
  have ok: "fst (chat local_config ?e empty_world ?rq) = Inr \<lparr>response = [], session_id = str ''s1''\<rparr>"
    using chat_local_first_turn_any[of "[]" "[]" "[]" "[]" "Some (str ''s1'')"]
    by (simp add: resolve_session_id_def str_simps)
  from user_turn_holds_message[OF ok] show ?thesis by simp
qed

end
